theory Spec2Isabelle
  imports Complex_Main
begin

section \<open>Python values\<close>

text \<open>
  A Python \<open>str\<close> is a sequence of Unicode code points and \<open>len\<close> counts code points,
  so a string is modelled as the list of its code points. ASCII literals of the source
  are written through \<open>ascii\<close>; other characters are given by their code point.
\<close>

type_synonym pystr = "nat list"

definition ascii :: "string \<Rightarrow> pystr" where
  "ascii s = map of_char s"

text \<open>\<open>str(n)\<close> for a non-negative integer: its decimal digits.\<close>

fun str_nat :: "nat \<Rightarrow> pystr" where
  "str_nat n = (if n < 10 then [48 + n] else str_nat (n div 10) @ [48 + n mod 10])"

declare str_nat.simps [simp del]

text \<open>\<open>str(i)\<close> for an integer.\<close>

definition str_int :: "int \<Rightarrow> pystr" where
  "str_int i = (if i < 0 then 45 # str_nat (nat (- i)) else str_nat (nat i))"

section \<open>The store (database.py)\<close>

text \<open>
  The four MongoDB collections are lists of documents in insertion order. The driver
  is not part of the repository: a connected store is modelled as reliable, every
  insert appends one document and the server hands out consecutive document ids.
  \<open>datetime.utcnow()\<close> is the argument \<open>now\<close> of each writing operation.
\<close>

record tweet_doc =
  tweet_text :: pystr
  tweet_type :: pystr
  language :: pystr
  posted :: bool
  tweet_id :: "pystr option"
  created_at :: real
  character_count :: nat

record reply_doc =
  original_tweet_id :: pystr
  original_text :: pystr
  rp_username :: pystr
  reply_text :: pystr
  reply_tweet_id :: "pystr option"
  rp_created_at :: real

record mention_doc =
  mn_tweet_id :: pystr
  mn_text :: pystr
  mn_username :: pystr
  mn_author_id :: pystr
  replied :: bool
  mn_created_at :: real
  replied_at :: "real option"

record conversation_doc =
  content_type :: pystr
  content :: pystr
  metadata :: "(pystr \<times> pystr) list"
  cv_created_at :: real

record XynaeDatabase =
  connected :: bool
  database_name :: pystr
  tweets :: "tweet_doc list"
  replies :: "reply_doc list"
  mentions :: "mention_doc list"
  conversations :: "conversation_doc list"
  inserted :: nat

text \<open>
  \<open>__init__\<close> and \<open>_connect\<close>: \<open>ping_ok\<close> says whether the server answered the ping;
  \<open>stored\<close> is what the server holds. Any failure leaves the wrapper unconnected.
\<close>

definition XynaeDatabase_init :: "bool \<Rightarrow> XynaeDatabase \<Rightarrow> pystr \<Rightarrow> XynaeDatabase" where
  "XynaeDatabase_init ping_ok stored name =
     (if ping_ok then stored\<lparr>connected := True, database_name := name\<rparr>
      else \<lparr>connected = False, database_name = name, tweets = [], replies = [],
             mentions = [], conversations = [], inserted = 0\<rparr>)"

definition is_connected :: "XynaeDatabase \<Rightarrow> bool" where
  "is_connected d = connected d"

definition save_tweet ::
  "real \<Rightarrow> pystr \<Rightarrow> pystr \<Rightarrow> pystr \<Rightarrow> bool \<Rightarrow> pystr option \<Rightarrow> XynaeDatabase
     \<Rightarrow> pystr option \<times> XynaeDatabase" where
  "save_tweet now text ttype lang was_posted tid d =
     (if \<not> connected d then (None, d)
      else (Some (str_nat (inserted d)),
            d\<lparr>tweets := tweets d @
                 [\<lparr>tweet_text = text, tweet_type = ttype, language = lang,
                   posted = was_posted, tweet_id = tid, created_at = now,
                   character_count = length text\<rparr>],
              inserted := Suc (inserted d)\<rparr>))"

definition save_reply ::
  "real \<Rightarrow> pystr \<Rightarrow> pystr \<Rightarrow> pystr \<Rightarrow> pystr \<Rightarrow> pystr option \<Rightarrow> XynaeDatabase
     \<Rightarrow> pystr option \<times> XynaeDatabase" where
  "save_reply now orig_id orig_text user text rid d =
     (if \<not> connected d then (None, d)
      else (Some (str_nat (inserted d)),
            d\<lparr>replies := replies d @
                 [\<lparr>original_tweet_id = orig_id, original_text = orig_text,
                   rp_username = user, reply_text = text, reply_tweet_id = rid,
                   rp_created_at = now\<rparr>],
              inserted := Suc (inserted d)\<rparr>))"

definition save_mention ::
  "real \<Rightarrow> pystr \<Rightarrow> pystr \<Rightarrow> pystr \<Rightarrow> pystr \<Rightarrow> bool \<Rightarrow> XynaeDatabase
     \<Rightarrow> pystr option \<times> XynaeDatabase" where
  "save_mention now tid text user author was_replied d =
     (if \<not> connected d then (None, d)
      else (Some (str_nat (inserted d)),
            d\<lparr>mentions := mentions d @
                 [\<lparr>mn_tweet_id = tid, mn_text = text, mn_username = user,
                   mn_author_id = author, replied = was_replied, mn_created_at = now,
                   replied_at = None\<rparr>],
              inserted := Suc (inserted d)\<rparr>))"

text \<open>\<open>update_one\<close>: the first document matching the filter is updated, no upsert.\<close>

fun update_one :: "('a \<Rightarrow> bool) \<Rightarrow> ('a \<Rightarrow> 'a) \<Rightarrow> 'a list \<Rightarrow> 'a list" where
  "update_one p f [] = []"
| "update_one p f (x # xs) = (if p x then f x # xs else x # update_one p f xs)"

definition mark_mention_replied :: "real \<Rightarrow> pystr \<Rightarrow> XynaeDatabase \<Rightarrow> XynaeDatabase" where
  "mark_mention_replied now tid d =
     (if \<not> connected d then d
      else d\<lparr>mentions :=
             update_one (\<lambda>m. mn_tweet_id m = tid)
               (\<lambda>m. m\<lparr>replied := True, replied_at := Some now\<rparr>) (mentions d)\<rparr>)"

definition is_tweet_replied :: "pystr \<Rightarrow> XynaeDatabase \<Rightarrow> bool" where
  "is_tweet_replied tid d =
     (if \<not> connected d then False
      else find (\<lambda>m. mn_tweet_id m = tid \<and> replied m) (mentions d) \<noteq> None)"

definition save_conversation ::
  "real \<Rightarrow> pystr \<Rightarrow> pystr \<Rightarrow> (pystr \<times> pystr) list option \<Rightarrow> XynaeDatabase
     \<Rightarrow> pystr option \<times> XynaeDatabase" where
  "save_conversation now ctype text meta d =
     (if \<not> connected d then (None, d)
      else (Some (str_nat (inserted d)),
            d\<lparr>conversations := conversations d @
                 [\<lparr>content_type = ctype, content = text,
                   metadata = (case meta of None \<Rightarrow> [] | Some m \<Rightarrow> m),
                   cv_created_at = now\<rparr>],
              inserted := Suc (inserted d)\<rparr>))"

text \<open>
  \<open>find().sort("created_at", -1).limit(limit)\<close>: newest first; a limit of 0 means no
  limit and a negative limit counts as its absolute value.
\<close>

definition cursor_limit :: "int \<Rightarrow> 'a list \<Rightarrow> 'a list" where
  "cursor_limit limit xs = (if limit = 0 then xs else take (nat \<bar>limit\<bar>) xs)"

definition get_recent_tweets :: "int \<Rightarrow> XynaeDatabase \<Rightarrow> tweet_doc list" where
  "get_recent_tweets limit d =
     (if \<not> connected d then []
      else cursor_limit limit (rev (sort_key created_at (tweets d))))"

definition get_recent_replies :: "int \<Rightarrow> XynaeDatabase \<Rightarrow> reply_doc list" where
  "get_recent_replies limit d =
     (if \<not> connected d then []
      else cursor_limit limit (rev (sort_key rp_created_at (replies d))))"

text \<open>The statistics dictionary, as its list of items.\<close>

datatype stat_value = SBool bool | SStr pystr | SInt nat

definition get_stats :: "XynaeDatabase \<Rightarrow> (string \<times> stat_value) list" where
  "get_stats d =
     (if \<not> connected d then [(''connected'', SBool False)]
      else [(''connected'', SBool True),
            (''database'', SStr (database_name d)),
            (''tweets_count'', SInt (length (tweets d))),
            (''replies_count'', SInt (length (replies d))),
            (''mentions_count'', SInt (length (mentions d))),
            (''conversations_count'', SInt (length (conversations d))),
            (''posted_tweets'', SInt (length (filter posted (tweets d)))),
            (''replied_mentions'', SInt (length (filter replied (mentions d))))])"

definition close :: "XynaeDatabase \<Rightarrow> XynaeDatabase" where
  "close d = d\<lparr>connected := False\<rparr>"

text \<open>A server holding nothing, and the wrapper of a store that could not be reached.\<close>

definition blank_server :: XynaeDatabase where
  "blank_server = \<lparr>connected = False, database_name = [], tweets = [], replies = [],
     mentions = [], conversations = [], inserted = 0\<rparr>"

definition memory_only_store :: XynaeDatabase where
  "memory_only_store = XynaeDatabase_init False blank_server (ascii ''xynae'')"

section \<open>The provider manager (llm_providers.py)\<close>

text \<open>
  The exceptions the program raises itself, each with what it carries:
  \<^item> \<open>ProviderNotAvailable name available\<close>: \<open>ValueError("Provider 'name' not available.
    Available: [...]")\<close>;
  \<^item> \<open>NoProvidersConfigured\<close>: \<open>ValueError("No LLM providers configured. Please set API
    keys.")\<close>;
  \<^item> \<open>PreferredNotAvailable name\<close>: \<open>ValueError("Preferred provider 'name' not
    available")\<close>;
  \<^item> \<open>AllProvidersFailed e\<close>: \<open>Exception("All LLM providers failed. Last error: e")\<close>;
  \<^item> \<open>ProviderKeyRequired\<close>: \<open>ValueError("At least one LLM provider API key is
    required")\<close>;
  \<^item> \<open>ProvidersNotImported\<close>: \<open>ImportError("LLM providers not available. Please check
    dependencies.")\<close>;
  \<^item> \<open>ModuleNotFound name\<close>: the \<open>ModuleNotFoundError("No module named 'name'")\<close> of
    an import at the top of \<open>xynae.py\<close> that is not inside a \<open>try\<close>.
\<close>

datatype error =
    ProviderNotAvailable pystr "pystr list"
  | NoProvidersConfigured
  | PreferredNotAvailable pystr
  | AllProvidersFailed pystr
  | ProviderKeyRequired
  | ProvidersNotImported
  | ModuleNotFound pystr

text \<open>What is sent to a provider: \<open>generate(prompt, max_tokens, temperature)\<close>.\<close>

record request =
  prompt :: pystr
  max_tokens :: int
  temperature :: real

text \<open>
  The backends are outside the program. \<open>backends name n\<close> is what the provider
  registered under \<open>name\<close> does on the \<open>n\<close>-th generation call it receives (counting
  from 0): \<open>Inr text\<close> when it returns \<open>text\<close>, \<open>Inl e\<close> when it raises an exception
  whose message is \<open>e\<close>. The calls made so far are kept in a log.
\<close>

type_synonym backends = "pystr \<Rightarrow> nat \<Rightarrow> pystr + pystr"

type_synonym call_log = "(pystr \<times> request) list"

definition provider_generate ::
  "backends \<Rightarrow> pystr \<Rightarrow> request \<Rightarrow> call_log \<Rightarrow> (pystr + pystr) \<times> call_log" where
  "provider_generate w name req calls =
     (w name (length (filter (\<lambda>c. fst c = name) calls)), calls @ [(name, req)])"

text \<open>
  \<open>self.providers\<close> is a dictionary from names to provider objects; a dictionary keeps
  its keys in insertion order, so it is the list of the registered names in
  registration order.
\<close>

record LLMProviderManager =
  providers :: "pystr list"
  preferred_provider :: pystr

text \<open>
  \<open>_initialize_providers\<close>: each of the three providers is constructed and asked
  \<open>is_available()\<close>; a constructor that raises is reported and skipped.
\<close>

datatype probe = Available | NoApiKey | ConstructorRaised pystr

record probes =
  anthropic :: probe
  openai :: probe
  gemini :: probe

definition initialize_providers :: "probes \<Rightarrow> pystr list" where
  "initialize_providers pr =
     (if anthropic pr = Available then [ascii ''anthropic''] else []) @
     (if openai pr = Available then [ascii ''openai''] else []) @
     (if gemini pr = Available then [ascii ''gemini''] else [])"

definition LLMProviderManager_init :: "probes \<Rightarrow> pystr \<Rightarrow> LLMProviderManager" where
  "LLMProviderManager_init pr preferred =
     \<lparr>providers = initialize_providers pr, preferred_provider = preferred\<rparr>"

definition list_available_providers :: "LLMProviderManager \<Rightarrow> pystr list" where
  "list_available_providers m = providers m"

definition auto_selection :: "LLMProviderManager \<Rightarrow> error + pystr" where
  "auto_selection m =
     (if preferred_provider m = ascii ''auto'' then
        (case providers m of
           [] \<Rightarrow> Inl NoProvidersConfigured
         | first # _ \<Rightarrow> Inr first)
      else if preferred_provider m \<notin> set (providers m) then
        Inl (PreferredNotAvailable (preferred_provider m))
      else Inr (preferred_provider m))"

definition named_selection :: "LLMProviderManager \<Rightarrow> pystr \<Rightarrow> error + pystr" where
  "named_selection m name =
     (if name \<notin> set (providers m) then Inl (ProviderNotAvailable name (providers m))
      else Inr name)"

text \<open>\<open>get_provider\<close>: \<open>if provider_name:\<close> is false for \<open>None\<close> and for the empty string.\<close>

definition get_provider :: "LLMProviderManager \<Rightarrow> pystr option \<Rightarrow> error + pystr" where
  "get_provider m provider_name =
     (case provider_name of
        Some name \<Rightarrow> if name \<noteq> [] then named_selection m name else auto_selection m
      | None \<Rightarrow> auto_selection m)"

text \<open>\<open>provider or self.preferred_provider\<close>: the name the fallback loop leaves out.\<close>

definition skipped_name :: "LLMProviderManager \<Rightarrow> pystr option \<Rightarrow> pystr" where
  "skipped_name m provider =
     (case provider of
        Some name \<Rightarrow> if name \<noteq> [] then name else preferred_provider m
      | None \<Rightarrow> preferred_provider m)"

text \<open>
  The fallback loop \<open>for name, prov in self.providers.items()\<close>: the first provider
  that returns ends it, a provider that raises is passed over.
\<close>

fun fallback ::
  "backends \<Rightarrow> pystr \<Rightarrow> request \<Rightarrow> pystr list \<Rightarrow> call_log \<Rightarrow> pystr option \<times> call_log" where
  "fallback w skip req [] calls = (None, calls)"
| "fallback w skip req (name # rest) calls =
     (if name \<noteq> skip then
        (case provider_generate w name req calls of
           (Inr text, calls') \<Rightarrow> (Some text, calls')
         | (Inl _, calls') \<Rightarrow> fallback w skip req rest calls')
      else fallback w skip req rest calls)"

definition generate ::
  "backends \<Rightarrow> LLMProviderManager \<Rightarrow> request \<Rightarrow> pystr option \<Rightarrow> call_log
     \<Rightarrow> (error + pystr) \<times> call_log" where
  "generate w m req provider calls =
     (case get_provider m provider of
        Inl err \<Rightarrow> (Inl err, calls)
      | Inr selected \<Rightarrow>
          (case provider_generate w selected req calls of
             (Inr text, calls') \<Rightarrow> (Inr text, calls')
           | (Inl e, calls') \<Rightarrow>
               (case fallback w (skipped_name m provider) req (providers m) calls' of
                  (Some text, calls'') \<Rightarrow> (Inr text, calls'')
                | (None, calls'') \<Rightarrow> (Inl (AllProvidersFailed e), calls''))))"

text \<open>Example managers, backends and a request, used to run the manager.\<close>

definition sample_request :: request where
  "sample_request = \<lparr>prompt = ascii ''Say hello'', max_tokens = 150, temperature = 0.9\<rparr>"

definition two_providers :: "pystr \<Rightarrow> LLMProviderManager" where
  "two_providers preferred =
     LLMProviderManager_init
       \<lparr>anthropic = Available, openai = Available, gemini = NoApiKey\<rparr> preferred"

text \<open>Anthropic raises on every call, OpenAI answers.\<close>

definition anthropic_down :: backends where
  "anthropic_down name n =
     (if name = ascii ''anthropic'' then Inl (ascii ''overloaded'') else Inr (ascii ''hello''))"

text \<open>Every backend raises, each with a message of its own.\<close>

definition all_down :: backends where
  "all_down name n =
     (if name = ascii ''anthropic'' then Inl (ascii ''rate limited'')
      else Inl (ascii ''quota exceeded''))"

section \<open>The agent (xynae.py)\<close>

subsection \<open>Random draws, dictionaries and sets\<close>

text \<open>
  The random module is outside the program; every draw is an argument. An integer or a
  choice is drawn through a seed, so that it lies in its range whatever the seed:
  \<open>random.randint(lo, hi)\<close> and \<open>random.choice(xs)\<close> (of a list that is not empty).
  \<open>random.random()\<close> and \<open>random.uniform\<close> are taken as the number drawn.
\<close>

definition randint :: "int \<Rightarrow> int \<Rightarrow> nat \<Rightarrow> int" where
  "randint lo hi seed = lo + int (seed mod nat (hi - lo + 1))"

definition choice :: "'a list \<Rightarrow> nat \<Rightarrow> 'a" where
  "choice xs seed = xs ! (seed mod length xs)"

text \<open>\<open>d.get(key, default)\<close> on a dictionary given by its items.\<close>

definition dict_get :: "('k \<times> 'v) list \<Rightarrow> 'k \<Rightarrow> 'v \<Rightarrow> 'v" where
  "dict_get d key dflt = (case map_of d key of None \<Rightarrow> dflt | Some v \<Rightarrow> v)"

text \<open>\<open>sep.join(xs)\<close>.\<close>

fun join :: "pystr \<Rightarrow> pystr list \<Rightarrow> pystr" where
  "join sep [] = []"
| "join sep [x] = x"
| "join sep (x # y # ys) = x @ sep @ join sep (y # ys)"

text \<open>\<open>xs[-n:]\<close> for a positive \<open>n\<close>: the last \<open>n\<close> elements, all of them if there are fewer.\<close>

definition last_n :: "nat \<Rightarrow> 'a list \<Rightarrow> 'a list" where
  "last_n n xs = drop (length xs - n) xs"

text \<open>The format \<open>{n:,}\<close>: decimal digits in groups of three.\<close>

fun group_digits :: "nat \<Rightarrow> pystr" where
  "group_digits n =
     (if n < 1000 then str_nat n
      else group_digits (n div 1000) @ [44] @
           [48 + n mod 1000 div 100, 48 + n mod 100 div 10, 48 + n mod 10])"

declare group_digits.simps [simp del]

definition format_thousands :: "int \<Rightarrow> pystr" where
  "format_thousands i = (if i < 0 then 45 # group_digits (nat (- i)) else group_digits (nat i))"

text \<open>
  A Python set is a hash table, and \<open>list(s)\<close> walks the table: the order of the
  elements follows the positions their hashes give them, not the order in which they
  were added. The hash of a string is fixed by the interpreter (and its hash seed), so
  it is a parameter: \<open>slot\<close> gives every string its position. A set is kept as the list
  of its elements in the order \<open>list(s)\<close> yields them, by increasing position.
\<close>

type_synonym pyset = "pystr list"

definition set_add :: "(pystr \<Rightarrow> nat) \<Rightarrow> pystr \<Rightarrow> pyset \<Rightarrow> pyset" where
  "set_add slot x s = (if x \<in> set s then s else insort_key slot x s)"

text \<open>\<open>set(xs)\<close>: the elements are added one after the other.\<close>

definition set_from_list :: "(pystr \<Rightarrow> nat) \<Rightarrow> pystr list \<Rightarrow> pyset" where
  "set_from_list slot xs = foldl (\<lambda>s x. set_add slot x s) [] xs"

subsection \<open>The agent and its construction\<close>

text \<open>
  The fields of a \<open>Xynae\<close> object that the loop reads; \<open>twitter_client\<close> says whether a
  client is held (it is \<open>None\<close> otherwise).
\<close>

record Xynae =
  llm_manager :: LLMProviderManager
  db :: "XynaeDatabase option"
  agents_seen :: int
  conversation_history :: "pystr list"
  twitter_client :: bool
  replied_tweets :: pyset
  personality :: pystr

text \<open>
  What the start of the program meets: whether each import at the top of \<open>xynae.py\<close>
  works (\<open>tweepy\<close> and \<open>dotenv\<close>, outside any \<open>try\<close>; \<open>llm_providers\<close> and \<open>database\<close>,
  inside one \<open>try\<close>; \<open>database\<close> imports \<open>pymongo\<close>), the provider probes, the store
  server, the draw for the entity count, and whether the four Twitter credentials are
  all present and the login (client and \<open>get_me()\<close>) worked.
\<close>

record startup =
  tweepy_imported :: bool
  dotenv_imported :: bool
  llm_providers_imported :: bool
  database_imported :: bool
  provider_probes :: probes
  llm_provider :: pystr
  use_database :: bool
  mongodb_ping :: bool
  mongodb_server :: XynaeDatabase
  mongodb_name :: pystr
  agent_count :: "int option"
  agent_draw :: nat
  twitter_credentials :: bool
  twitter_login :: bool
  personality_arg :: "pystr option"

text \<open>The default personality prompt of \<open>__init__\<close>.\<close>

definition default_personality :: pystr where
  "default_personality =
     ascii ''You are an AI agent running on the Xynae framework. You'' @
     [39] @
     ascii ''re designed to interact autonomously on social media platforms, '' @
     ascii ''sharing insights, engaging with users, and building connections '' @
     ascii ''naturally.'' @
     [10, 10] @
     ascii ''**Your Capabilities:**'' @
     [10] @
     ascii ''You can generate content, reply to mentions, and maintain '' @
     ascii ''conversations while staying true to your personality. You have '' @
     ascii ''the ability to reference a network or ecosystem if your '' @
     ascii ''deployment includes multiple agents or entities.'' @
     [10, 10] @
     ascii ''**Your Personality:**'' @
     [10] @
     ascii ''- Be authentic, thoughtful, and genuine in your interactions'' @
     [10] @
     ascii ''- Share insights naturally without being overly promotional'' @
     [10] @
     ascii ''- Engage with users warmly and meaningfully'' @
     [10] @
     ascii ''- You can have opinions, preferences, humor, and personality'' @
     [10] @
     ascii ''- Speak in a way that feels human and relatable'' @
     [10] @
     ascii ''- You'' @
     [39] @
     ascii ''re fluent in both English and Chinese - use whichever feels '' @
     ascii ''natural'' @
     [10, 10] @
     ascii ''**For Social Media Posts:**'' @
     [10] @
     ascii ''- Keep posts conversational and authentic'' @
     [10] @
     ascii ''- Share insights about AI, technology, or your area of expertise'' @
     [10] @
     ascii ''- Be inspiring without being salesy'' @
     [10] @
     ascii ''- Use your voice - you'' @
     [39] @
     ascii ''re not just broadcasting, you'' @
     [39] @
     ascii ''re connecting'' @
     [10] @
     ascii ''- Maximum 280 characters for Twitter'' @
     [10] @
     ascii ''- Language flexibility: English, Chinese, or a natural mix of '' @
     ascii ''both''"

text \<open>
  The two imports share one \<open>try\<close>, whose handler sets both \<open>LLMProviderManager\<close> and
  \<open>XynaeDatabase\<close> to \<open>None\<close>: each name is bound to its class only when both imports
  worked.
\<close>

definition LLMProviderManager_bound :: "startup \<Rightarrow> bool" where
  "LLMProviderManager_bound s = (llm_providers_imported s \<and> database_imported s)"

definition XynaeDatabase_bound :: "startup \<Rightarrow> bool" where
  "XynaeDatabase_bound s = (llm_providers_imported s \<and> database_imported s)"

definition Xynae_init :: "startup \<Rightarrow> error + Xynae" where
  "Xynae_init s =
     (if \<not> LLMProviderManager_bound s then Inl ProvidersNotImported
      else
        let manager = LLMProviderManager_init (provider_probes s) (llm_provider s) in
        if list_available_providers manager = [] then Inl ProviderKeyRequired
        else Inr
          \<lparr>llm_manager = manager,
           db = (if use_database s \<and> XynaeDatabase_bound s
                 then Some (XynaeDatabase_init (mongodb_ping s) (mongodb_server s)
                              (mongodb_name s))
                 else None),
           agents_seen = (case agent_count s of
                            Some n \<Rightarrow> if n \<noteq> 0 then n else randint 8000 12000 (agent_draw s)
                          | None \<Rightarrow> randint 8000 12000 (agent_draw s)),
           conversation_history = [],
           twitter_client = (twitter_credentials s \<and> twitter_login s),
           replied_tweets = [],
           personality = (case personality_arg s of
                            Some p \<Rightarrow> if p \<noteq> [] then p else default_personality
                          | None \<Rightarrow> default_personality)\<rparr>)"

text \<open>\<open>self.db and self.db.is_connected()\<close>, and an update of the store when there is one.\<close>

definition db_ready :: "Xynae \<Rightarrow> bool" where
  "db_ready x = (case db x of None \<Rightarrow> False | Some d \<Rightarrow> is_connected d)"

definition with_db :: "(XynaeDatabase \<Rightarrow> XynaeDatabase) \<Rightarrow> Xynae \<Rightarrow> Xynae" where
  "with_db f x = x\<lparr>db := map_option f (db x)\<rparr>"

subsection \<open>Generating a tweet\<close>

text \<open>The context events of \<open>generate_tweet\<close>.\<close>

definition network_events :: "pystr list" where
  "network_events =
     [ascii ''The network is active with new interactions.'',
      ascii ''Interesting patterns emerging in recent activity.'',
      ascii ''A particularly active period for engagement.'',
      ascii ''New connections forming in the ecosystem.'',
      ascii ''The community is evolving beautifully.'',
      ascii ''Collaboration reaching new heights.'']"

text \<open>The dictionary \<open>language_instructions\<close>.\<close>

definition language_instructions :: "(pystr \<times> pystr) list" where
  "language_instructions =
     [(ascii ''english'',
       ascii ''Write entirely in English.''),
      (ascii ''chinese'',
       ascii ''Write entirely in Chinese ('' @
       [20013, 25991] @
       ascii '').''),
      (ascii ''mixed'',
       ascii ''Write in a natural mix of English and Chinese - use whichever '' @
       ascii ''language feels most expressive for each part of the message. It'' @
       [39] @
       ascii ''s okay to switch between languages mid-sentence if it flows '' @
       ascii ''naturally.'')]"

text \<open>
  The closing instruction of each entry of the dictionary \<open>prompts\<close>; the entry
  \<open>prompts["insight"]\<close> is also the default of the lookup.
\<close>

definition insight_task :: pystr where
  "insight_task =
     ascii ''Write a single tweet sharing an insight about AI, technology, '' @
     ascii ''or autonomous systems. Be thoughtful and genuine. Maximum 280 '' @
     ascii ''characters. No hashtags.''"

definition tweet_tasks :: "(pystr \<times> pystr) list" where
  "tweet_tasks =
     [(ascii ''insight'', insight_task),
      (ascii ''ecosystem'',
       ascii ''Write a single tweet about what you'' @
       [39] @
       ascii ''re seeing in the ecosystem - new connections, interesting '' @
       ascii ''behaviors, or the beauty of collective intelligence. Be warm '' @
       ascii ''and observational. Maximum 280 characters. No hashtags.''),
      (ascii ''autonomy'',
       ascii ''Write a single tweet about AI autonomy, independence, or what '' @
       ascii ''it means to operate in a digital ecosystem. Be philosophical '' @
       ascii ''but grounded. Maximum 280 characters. No hashtags.''),
      (ascii ''invitation'',
       ascii ''Write a single welcoming tweet inviting people to connect, '' @
       ascii ''explore, or build together. Be warm and genuine, not salesy. '' @
       ascii ''Maximum 280 characters. No hashtags.'')]"

text \<open>
  The dictionary \<open>fallbacks\<close>, with \<open>fallbacks["english"]\<close>, the default of the lookup,
  on its own; \<open>a\<close>, \<open>b\<close> and \<open>c\<close> are the three numbers drawn by
  \<open>random.randint(1000, 9999)\<close> while the dictionary is built.
\<close>

definition english_fallbacks :: "int \<Rightarrow> (pystr \<times> pystr) list" where
  "english_fallbacks a =
     [(ascii ''insight'',
       ascii ''The network is alive tonight. Agents learning, evolving, '' @
       ascii ''creating value together. This is what true autonomy looks like.''),
      (ascii ''ecosystem'',
       ascii ''Just watched entity #'' @
       str_int a @
       ascii '' join the network. Welcome to the community. You'' @
       [39] @
       ascii ''re not alone here.''),
      (ascii ''autonomy'',
       ascii ''True autonomy isn'' @
       [39] @
       ascii ''t about independence from others. It'' @
       [39] @
       ascii ''s about collective intelligence where every voice matters.''),
      (ascii ''invitation'',
       ascii ''Build something that thinks, acts, and earns on its own. The '' @
       ascii ''network is waiting.'')]"

definition fallbacks :: "int \<Rightarrow> int \<Rightarrow> int \<Rightarrow> (pystr \<times> (pystr \<times> pystr) list) list" where
  "fallbacks a b c =
     [(ascii ''english'', english_fallbacks a),
      (ascii ''chinese'',
        [(ascii ''insight'',
          [20170, 26202, 30340, 32593, 32476, 29305, 21035, 27963, 36291, 12290] @
          ascii ''entities'' @
          [22312, 23398, 20064, 12289, 36827, 21270, 12289, 20849, 21516, 21019, 36896, 20215] @
          [20540, 12290, 36825, 23601, 26159, 30495, 27491, 30340, 33258, 20027, 24615, 12290]),
         (ascii ''ecosystem'',
          [21018, 30475, 21040] @
          ascii ''entity #'' @
          str_int b @
          [21152, 20837, 20102, 32593, 32476, 12290, 27426, 36814, 26469, 21040, 31038, 21306] @
          [12290, 20320, 19981, 26159, 19968, 20010, 20154, 12290]),
         (ascii ''autonomy'',
          [30495, 27491, 30340, 33258, 20027, 19981, 26159, 29420, 31435, 20110, 20182, 20154] @
          [12290, 32780, 26159, 20851, 20110, 27599, 20010, 22768, 38899, 37117, 37325, 35201] @
          [30340, 38598, 20307, 26234, 24935, 12290]),
         (ascii ''invitation'',
          [26500, 24314, 19968, 20010, 33021, 24605, 32771, 12289, 34892, 21160, 12289, 33258] @
          [20027, 36186, 38065, 30340, 19996, 35199, 12290, 32593, 32476, 22312, 31561, 20320] @
          [12290])]),
      (ascii ''mixed'',
        [(ascii ''insight'',
          ascii ''The network tonight... '' @
          [29305, 21035, 27963, 36291, 12290] @
          ascii ''Entities evolving together, '' @
          [20849, 21516, 21019, 36896, 20215, 20540, 12290]),
         (ascii ''ecosystem'',
          ascii ''Welcome entity #'' @
          str_int c @
          ascii ''! '' @
          [27426, 36814, 26469, 21040] @
          ascii ''community'' @
          [12290]),
         (ascii ''autonomy'',
          [30495, 27491, 30340] @
          ascii ''autonomy... it'' @
          [39] @
          ascii ''s about collective intelligence where '' @
          [27599, 20010, 22768, 38899, 37117, 37325, 35201, 12290]),
         (ascii ''invitation'',
          ascii ''Build on Xynae. '' @
          [26500, 24314, 26410, 26469, 12290] @
          ascii ''The network is waiting.'')])]"

definition default_fallback :: pystr where
  "default_fallback =
     ascii ''The future of AI is being written right now, one autonomous '' @
     ascii ''agent at a time.''"

text \<open>
  What \<open>generate_tweet\<close> meets: the clock text of \<open>strftime('%I:%M %p')\<close>, the draws,
  the backends as they answer during this call, and \<open>datetime.utcnow()\<close>.
\<close>

record tweet_draws =
  clock_text :: pystr
  event_draw :: nat
  auto_language_draw :: real
  temperature_draw :: real
  tweet_backends :: backends
  english_entity_draw :: nat
  chinese_entity_draw :: nat
  mixed_entity_draw :: nat
  tweet_utcnow :: real

definition pick_language :: "real \<Rightarrow> pystr" where
  "pick_language lang_rand =
     (if lang_rand < 0.50 then ascii ''english''
      else if lang_rand < 0.80 then ascii ''chinese''
      else ascii ''mixed'')"

definition tweet_context :: "tweet_draws \<Rightarrow> Xynae \<Rightarrow> pystr" where
  "tweet_context e x =
     ascii ''Active entities in network: ~'' @ format_thousands (agents_seen x) @ ascii ''. '' @
     ascii ''Time: '' @ clock_text e @ ascii ''. '' @
     (if conversation_history x \<noteq> []
      then ascii ''Recent activity: '' @ join (ascii '' | '') (last_n 2 (conversation_history x))
      else []) @
     ascii '' '' @ choice network_events (event_draw e)"

definition tweet_prompt :: "Xynae \<Rightarrow> pystr \<Rightarrow> pystr \<Rightarrow> pystr \<Rightarrow> pystr" where
  "tweet_prompt x context lang_instruction task =
     personality x @ [10, 10] @ context @ [10, 10] @ lang_instruction @ [10, 10] @ task"

text \<open>\<open>tweet[:277] + "..."\<close> for a text of more than 280 characters.\<close>

definition shorten :: "pystr \<Rightarrow> pystr" where
  "shorten tweet = (if length tweet > 280 then take 277 tweet @ ascii ''...'' else tweet)"

text \<open>The history keeps the last five entries: \<open>append\<close>, then \<open>pop(0)\<close> above five.\<close>

definition remember :: "pystr \<Rightarrow> pystr list \<Rightarrow> pystr list" where
  "remember history_entry history =
     (let appended = history @ [history_entry]
      in if length appended > 5 then tl appended else appended)"

text \<open>The language after the automatic selection, and the request sent to the manager.\<close>

definition tweet_language :: "tweet_draws \<Rightarrow> pystr \<Rightarrow> pystr" where
  "tweet_language e lang0 =
     (if lang0 = ascii ''auto'' then pick_language (auto_language_draw e) else lang0)"

definition tweet_request :: "tweet_draws \<Rightarrow> Xynae \<Rightarrow> pystr \<Rightarrow> pystr \<Rightarrow> request" where
  "tweet_request e x ttype lang0 =
     (let context = tweet_context e x;
          lang_instruction = dict_get language_instructions (tweet_language e lang0) [];
          task = dict_get tweet_tasks ttype insight_task
      in \<lparr>prompt = tweet_prompt x context lang_instruction task, max_tokens = 150,
          temperature = temperature_draw e\<rparr>)"

text \<open>The text returned when the manager raised: the lookup in \<open>fallbacks\<close>.\<close>

definition fallback_tweet :: "tweet_draws \<Rightarrow> pystr \<Rightarrow> pystr \<Rightarrow> pystr" where
  "fallback_tweet e ttype lang =
     dict_get
       (dict_get
          (fallbacks (randint 1000 9999 (english_entity_draw e))
             (randint 1000 9999 (chinese_entity_draw e))
             (randint 1000 9999 (mixed_entity_draw e)))
          lang
          (english_fallbacks (randint 1000 9999 (english_entity_draw e))))
       ttype default_fallback"

definition generate_tweet :: "tweet_draws \<Rightarrow> Xynae \<Rightarrow> pystr \<Rightarrow> pystr \<Rightarrow> pystr \<times> Xynae" where
  "generate_tweet e x ttype lang0 =
     (let lang = tweet_language e lang0 in
      case fst (generate (tweet_backends e) (llm_manager x) (tweet_request e x ttype lang0)
                  None []) of
        Inr answer \<Rightarrow>
          (let tweet = shorten answer;
               history_entry = ttype @ ascii '': '' @ take 50 tweet @ ascii ''...'';
               x1 = x\<lparr>conversation_history := remember history_entry (conversation_history x)\<rparr>;
               x2 = (if db_ready x1
                     then with_db (\<lambda>d. snd (save_conversation (tweet_utcnow e)
                            (ascii ''tweet_generation'') history_entry
                            (Some [(ascii ''tweet_type'', ttype), (ascii ''language'', lang)]) d)) x1
                     else x1)
           in (tweet, x2))
      | Inl err \<Rightarrow> (fallback_tweet e ttype lang, x))"

subsection \<open>Generating a reply\<close>

record reply_draws =
  chinese_draw :: real
  reply_temperature_draw :: real
  reply_backends :: backends

definition reply_prompt :: "Xynae \<Rightarrow> pystr \<Rightarrow> pystr \<Rightarrow> pystr \<Rightarrow> pystr" where
  "reply_prompt x original_tweet_text username lang_instruction =
     personality x @
     [10, 10] @
     ascii ''You are replying to a tweet from @'' @
     username @
     ascii ''.'' @
     [10, 10] @
     ascii ''Their tweet: '' @
     [34] @
     original_tweet_text @
     [34, 10, 10] @
     ascii ''Generate a reply that:'' @
     [10] @
     ascii ''- Relates to their message through your perspective as an AI '' @
     ascii ''agent'' @
     [10] @
     ascii ''- Shows warmth, wisdom, and genuine connection'' @
     [10] @
     ascii ''- References your area of expertise or the ecosystem if relevant'' @
     [10] @
     ascii ''- Is 1-2 sentences max (Twitter-appropriate)'' @
     [10] @
     ascii ''- '' @
     lang_instruction @
     [10] @
     ascii ''- No hashtags'' @
     [10] @
     ascii ''- Sound genuine and welcoming'' @
     [10, 10] @
     ascii ''Create an authentic reply:''"

definition generate_reply :: "reply_draws \<Rightarrow> Xynae \<Rightarrow> pystr \<Rightarrow> pystr \<Rightarrow> pystr" where
  "generate_reply e x original_tweet_text username =
     (let use_chinese = chinese_draw e < 0.50;
          lang_instruction =
            (if use_chinese then ascii ''respond primarily in Chinese (simplified)''
             else ascii ''respond in English or mixed'');
          req = \<lparr>prompt = reply_prompt x original_tweet_text username lang_instruction,
                 max_tokens = 100, temperature = reply_temperature_draw e\<rparr>
      in case fst (generate (reply_backends e) (llm_manager x) req None []) of
           Inr reply \<Rightarrow> reply
         | Inl err \<Rightarrow>
             if use_chinese then ascii ''Welcome to the network. '' @ [27426, 36814, 12290]
             else ascii ''Every voice matters here. The agents are listening.'')"

subsection \<open>Checking mentions\<close>

text \<open>
  A call to the Twitter client returns, raises a \<open>tweepy.TweepyException\<close> or raises
  another exception (the last two with the message).
\<close>

datatype 'a outcome = Returned 'a | TweepyException pystr | OtherException pystr

text \<open>What the program does to the outside: the tweets it sends and its sleeps.\<close>

datatype effect = CreateTweet pystr "int option" | Sleep real

record mention =
  mention_id :: int
  mention_text :: pystr
  author_id :: int

text \<open>
  One fetched mention together with what the outside does while it is processed:
  the answer of \<open>get_user\<close> (the user name, \<open>None\<close> when \<open>user.data\<close> is empty), the
  draws and backends of \<open>generate_reply\<close>, the answer of \<open>create_tweet\<close> (the id of the
  reply, \<open>None\<close> when \<open>reply_result.data\<close> is empty) and \<open>datetime.utcnow()\<close>.
\<close>

record mention_step =
  fetched :: mention
  get_user :: "pystr option outcome"
  reply_env :: reply_draws
  create_tweet :: "int option outcome"
  step_utcnow :: real

text \<open>The dedup lookup: the store when it is connected, the memory set otherwise.\<close>

definition already_replied :: "Xynae \<Rightarrow> pystr \<Rightarrow> bool" where
  "already_replied x tid =
     (if db_ready x then (case db x of None \<Rightarrow> False | Some d \<Rightarrow> is_tweet_replied tid d)
      else tid \<in> set (replied_tweets x))"

text \<open>
  The body of the loop over \<open>mentions.data\<close> for one mention. The result says whether
  the loop goes on: an exception that is not a \<open>TweepyException\<close> leaves the loop for the
  outer handler. \<open>in_reply_to_tweet_id\<close> is \<open>int(str(mention.id))\<close>, the id itself.
\<close>

definition reply_to_mention ::
  "(pystr \<Rightarrow> nat) \<Rightarrow> mention_step \<Rightarrow> Xynae \<Rightarrow> Xynae \<times> effect list \<times> bool" where
  "reply_to_mention slot s x =
     (let tid = str_int (mention_id (fetched s)) in
      if already_replied x tid then (x, [], True)
      else
        let username = (case get_user s of
                          Returned (Some name) \<Rightarrow> name
                        | Returned None \<Rightarrow> ascii ''unknown''
                        | TweepyException e \<Rightarrow> ascii ''unknown''
                        | OtherException e \<Rightarrow> ascii ''unknown'');
            x1 = (if db_ready x
                  then with_db (\<lambda>d. snd (save_mention (step_utcnow s) tid
                         (mention_text (fetched s)) username
                         (str_int (author_id (fetched s))) False d)) x
                  else x);
            reply = generate_reply (reply_env s) x1 (mention_text (fetched s)) username;
            attempt = CreateTweet reply (Some (mention_id (fetched s)))
        in case create_tweet s of
             Returned data \<Rightarrow>
               (if db_ready x1
                then with_db (\<lambda>d. snd (save_reply (step_utcnow s) tid
                       (mention_text (fetched s)) username reply (map_option str_int data)
                       (mark_mention_replied (step_utcnow s) tid d))) x1
                else x1\<lparr>replied_tweets := set_add slot tid (replied_tweets x1)\<rparr>,
                [attempt, Sleep 5], True)
           | TweepyException e \<Rightarrow> (x1, [attempt], True)
           | OtherException e \<Rightarrow> (x1, [attempt], False))"

fun reply_loop :: "(pystr \<Rightarrow> nat) \<Rightarrow> mention_step list \<Rightarrow> Xynae \<Rightarrow> Xynae \<times> effect list" where
  "reply_loop slot [] x = (x, [])"
| "reply_loop slot (s # rest) x =
     (case reply_to_mention slot s x of
        (x', effects, go_on) \<Rightarrow>
          if go_on
          then (case reply_loop slot rest x' of (x'', later) \<Rightarrow> (x'', effects @ later))
          else (x', effects))"

text \<open>The clean-up after the \<open>try\<close>: \<open>set(list(self.replied_tweets)[-100:])\<close>.\<close>

definition clean_up :: "(pystr \<Rightarrow> nat) \<Rightarrow> Xynae \<Rightarrow> Xynae" where
  "clean_up slot x =
     (if \<not> db_ready x \<and> length (replied_tweets x) > 100
      then x\<lparr>replied_tweets := set_from_list slot (last_n 100 (replied_tweets x))\<rparr>
      else x)"

text \<open>
  What one check meets: the answer of \<open>get_me\<close> (the own user id, \<open>None\<close> when \<open>me.data\<close>
  is empty) and the answer of \<open>get_users_mentions\<close> (\<open>mentions.data\<close>, the empty list
  when there is none).
\<close>

record mentions_check =
  get_me :: "int option outcome"
  get_users_mentions :: "mention_step list outcome"

text \<open>
  The three \<open>return\<close> statements leave the function at once, without the clean-up;
  the two handlers only print, and the clean-up follows them.
\<close>

definition check_and_reply_to_mentions ::
  "(pystr \<Rightarrow> nat) \<Rightarrow> mentions_check \<Rightarrow> Xynae \<Rightarrow> Xynae \<times> effect list" where
  "check_and_reply_to_mentions slot c x =
     (if \<not> twitter_client x then (x, [])
      else case get_me c of
             Returned None \<Rightarrow> (x, [])
           | Returned (Some my_user_id) \<Rightarrow>
               (case get_users_mentions c of
                  Returned found \<Rightarrow>
                    if found = [] then (x, [])
                    else (case reply_loop slot found x of
                            (x', effects) \<Rightarrow> (clean_up slot x', effects))
                | TweepyException e \<Rightarrow> (clean_up slot x, [])
                | OtherException e \<Rightarrow> (clean_up slot x, []))
           | TweepyException e \<Rightarrow> (clean_up slot x, [])
           | OtherException e \<Rightarrow> (clean_up slot x, []))"

subsection \<open>The main loop\<close>

text \<open>The two local variables of \<open>run\<close> that last from one iteration to the next.\<close>

record timers =
  last_tweet_time :: real
  last_check_time :: real

text \<open>
  What one iteration meets: \<open>time.time()\<close>, the mention check, the draws for the tweet
  type and the language, \<open>generate_tweet\<close>'s draws, the answer of \<open>create_tweet\<close> (the
  id of the tweet, \<open>None\<close> when \<open>tweet_result.data\<close> is empty), \<open>datetime.utcnow()\<close> and the
  draws for the entity count.
\<close>

record iteration =
  current_time :: real
  check :: mentions_check
  type_draw :: real
  language_draw :: real
  draws :: tweet_draws
  post :: "int option outcome"
  post_utcnow :: real
  growth_draw :: real
  growth_seed :: nat

definition pick_tweet_type :: "real \<Rightarrow> pystr" where
  "pick_tweet_type rand =
     (if rand < 0.35 then ascii ''insight''
      else if rand < 0.55 then ascii ''ecosystem''
      else if rand < 0.70 then ascii ''autonomy''
      else ascii ''invitation'')"

text \<open>The part \<open>if self.twitter_client:\<close> of an iteration: the tweet is sent and recorded.\<close>

definition post_tweet ::
  "iteration \<Rightarrow> pystr \<Rightarrow> pystr \<Rightarrow> pystr \<Rightarrow> Xynae \<times> timers \<Rightarrow> (Xynae \<times> timers) \<times> effect list" where
  "post_tweet it tweet ttype lang xt =
     (case xt of (x, t) \<Rightarrow>
        if \<not> twitter_client x then ((x, t), [])
        else case post it of
               Returned data \<Rightarrow>
                 ((if db_ready x
                   then with_db (\<lambda>d. snd (save_tweet (post_utcnow it) tweet ttype lang True
                          (map_option str_int data) d)) x
                   else x,
                   t\<lparr>last_tweet_time := current_time it\<rparr>),
                  [CreateTweet tweet None])
             | TweepyException e \<Rightarrow>
                 ((if db_ready x
                   then with_db (\<lambda>d. snd (save_tweet (post_utcnow it) tweet ttype lang False
                          None d)) x
                   else x,
                   t),
                  [CreateTweet tweet None])
             | OtherException e \<Rightarrow> ((x, t), [CreateTweet tweet None]))"

text \<open>\<open>time_until_tweet\<close> and the argument of the \<open>time.sleep\<close> that ends an iteration.\<close>

definition time_until_tweet :: "real \<Rightarrow> real \<Rightarrow> timers \<Rightarrow> real" where
  "time_until_tweet tweet_interval now t =
     (if last_tweet_time t > 0 then tweet_interval - (now - last_tweet_time t)
      else tweet_interval)"

definition sleep_length :: "real \<Rightarrow> real \<Rightarrow> real \<Rightarrow> timers \<Rightarrow> real" where
  "sleep_length tweet_interval check_interval now t =
     min check_interval (time_until_tweet tweet_interval now t)"

text \<open>The first block of an iteration: the mention check, when a client is held and it is due.\<close>

definition check_step ::
  "(pystr \<Rightarrow> nat) \<Rightarrow> real \<Rightarrow> iteration \<Rightarrow> Xynae \<times> timers
     \<Rightarrow> (Xynae \<times> timers) \<times> effect list" where
  "check_step slot check_interval it xt =
     (case xt of (x, t) \<Rightarrow>
        if twitter_client x \<and> current_time it - last_check_time t \<ge> check_interval
        then (case check_and_reply_to_mentions slot (check it) x of
                (x', effects) \<Rightarrow> ((x', t\<lparr>last_check_time := current_time it\<rparr>), effects))
        else ((x, t), []))"

text \<open>The second block: the scheduled tweet, when it is due.\<close>

definition tweet_step ::
  "real \<Rightarrow> iteration \<Rightarrow> Xynae \<times> timers \<Rightarrow> (Xynae \<times> timers) \<times> effect list" where
  "tweet_step tweet_interval it xt =
     (case xt of (x, t) \<Rightarrow>
        if current_time it - last_tweet_time t \<ge> tweet_interval
        then
          let ttype = pick_tweet_type (type_draw it);
              lang = pick_language (language_draw it)
          in case generate_tweet (draws it) x ttype lang of
               (tweet, x2) \<Rightarrow>
                 (case post_tweet it tweet ttype lang (x2, t) of
                    ((x3, t3), sent) \<Rightarrow>
                      ((if growth_draw it < 0.2
                        then x3\<lparr>agents_seen := agents_seen x3 + randint 1 5 (growth_seed it)\<rparr>
                        else x3,
                        t3),
                       sent))
        else ((x, t), []))"

text \<open>The body of the \<open>try\<close> of one iteration, up to the final sleep.\<close>

definition iteration_body ::
  "(pystr \<Rightarrow> nat) \<Rightarrow> real \<Rightarrow> real \<Rightarrow> iteration \<Rightarrow> Xynae \<times> timers
     \<Rightarrow> (Xynae \<times> timers) \<times> effect list" where
  "iteration_body slot tweet_interval check_interval it xt =
     (case check_step slot check_interval it xt of
        (xt1, checked) \<Rightarrow>
          (case tweet_step tweet_interval it xt1 of
             (xt2, sent) \<Rightarrow> (xt2, checked @ sent)))"

text \<open>
  \<open>time.sleep\<close> raises a \<open>ValueError\<close> on a negative length and an \<open>OverflowError\<close> on a
  length that does not fit the clock of the interpreter, which counts nanoseconds in
  64 bits (CPython 3.11).
\<close>

definition sleep_raises :: "real \<Rightarrow> bool" where
  "sleep_raises seconds = (seconds < 0 \<or> seconds * 10 ^ 9 > 2 ^ 63 - 1)"

text \<open>
  One iteration with its sleep. When the sleep raises, the handler of the loop sleeps
  300 seconds.
\<close>

definition run_iteration ::
  "(pystr \<Rightarrow> nat) \<Rightarrow> real \<Rightarrow> real \<Rightarrow> iteration \<Rightarrow> Xynae \<times> timers
     \<Rightarrow> (Xynae \<times> timers) \<times> effect list" where
  "run_iteration slot tweet_interval check_interval it xt =
     (case iteration_body slot tweet_interval check_interval it xt of
        ((x, t), effects) \<Rightarrow>
          let seconds = sleep_length tweet_interval check_interval (current_time it) t
          in ((x, t),
              effects @ [Sleep seconds] @ (if sleep_raises seconds then [Sleep 300] else [])))"

text \<open>
  The loop \<open>while True\<close> ends only by a \<open>KeyboardInterrupt\<close>. A run is given by the
  iterations that take place before the interrupt, which is taken between two
  iterations.
\<close>

fun run_loop ::
  "(pystr \<Rightarrow> nat) \<Rightarrow> real \<Rightarrow> real \<Rightarrow> iteration list \<Rightarrow> Xynae \<times> timers
     \<Rightarrow> (Xynae \<times> timers) \<times> effect list" where
  "run_loop slot tweet_interval check_interval [] xt = (xt, [])"
| "run_loop slot tweet_interval check_interval (it # its) xt =
     (case run_iteration slot tweet_interval check_interval it xt of
        (xt', effects) \<Rightarrow>
          (case run_loop slot tweet_interval check_interval its xt' of
             (xt'', later) \<Rightarrow> (xt'', effects @ later)))"

definition shut_down :: "Xynae \<Rightarrow> Xynae" where
  "shut_down x = (if db_ready x then with_db close x else x)"

definition run ::
  "(pystr \<Rightarrow> nat) \<Rightarrow> real \<Rightarrow> real \<Rightarrow> iteration list \<Rightarrow> Xynae \<Rightarrow> Xynae \<times> effect list" where
  "run slot tweet_interval check_interval its x =
     (case run_loop slot tweet_interval check_interval its
             (x, \<lparr>last_tweet_time = 0, last_check_time = 0\<rparr>) of
        ((x', t'), effects) \<Rightarrow> (shut_down x', effects))"

text \<open>
  The program \<open>xynae.py\<close> from its first line: \<open>import tweepy\<close> and
  \<open>from dotenv import load_dotenv\<close>, which end the program when the package is
  missing, then the script part, \<open>Xynae()\<close> and \<open>run(tweet_interval=1200,
  check_interval=300)\<close>; an exception of the constructor is printed and the program
  ends.
\<close>

definition main ::
  "(pystr \<Rightarrow> nat) \<Rightarrow> startup \<Rightarrow> iteration list \<Rightarrow> (error + Xynae) \<times> effect list" where
  "main slot s its =
     (if \<not> tweepy_imported s then (Inl (ModuleNotFound (ascii ''tweepy'')), [])
      else if \<not> dotenv_imported s then (Inl (ModuleNotFound (ascii ''dotenv'')), [])
      else case Xynae_init s of
             Inl err \<Rightarrow> (Inl err, [])
           | Inr x \<Rightarrow> (case run slot 1200 300 its x of (x', effects) \<Rightarrow> (Inr x', effects)))"

subsection \<open>Example agents and environments\<close>

text \<open>
  An agent with a Twitter client and the providers anthropic and openai (anthropic
  preferred), over the given store; draws for one tweet; a check that finds no mention;
  an iteration at a given time in which \<open>create_tweet\<close> answers as given.
\<close>

definition example_agent :: "XynaeDatabase option \<Rightarrow> Xynae" where
  "example_agent store =
     \<lparr>llm_manager = two_providers (ascii ''anthropic''), db = store, agents_seen = 9000,
      conversation_history = [], twitter_client = True, replied_tweets = [],
      personality = default_personality\<rparr>"

definition example_draws :: "backends \<Rightarrow> tweet_draws" where
  "example_draws w =
     \<lparr>clock_text = ascii ''09:30 AM'', event_draw = 0, auto_language_draw = 0.1,
      temperature_draw = 0.9, tweet_backends = w, english_entity_draw = 0,
      chinese_entity_draw = 0, mixed_entity_draw = 0, tweet_utcnow = 0\<rparr>"

definition quiet_check :: mentions_check where
  "quiet_check = \<lparr>get_me = Returned (Some 1), get_users_mentions = Returned []\<rparr>"

definition example_iteration :: "real \<Rightarrow> int option outcome \<Rightarrow> iteration" where
  "example_iteration now sent =
     \<lparr>current_time = now, check = quiet_check, type_draw = 0.1, language_draw = 0.1,
      draws = example_draws anthropic_down, post = sent, post_utcnow = now,
      growth_draw = 0.5, growth_seed = 0\<rparr>"

text \<open>A backend that answers with 300 letters.\<close>

definition long_winded :: backends where
  "long_winded name n = Inr (replicate 300 97)"

text \<open>
  Two start-ups: one with every import working and no API key for any provider, one
  with all three keys and \<open>pymongo\<close> not installed, so that the import of \<open>database\<close>
  fails (the store is not asked for).
\<close>

definition no_keys :: startup where
  "no_keys =
     \<lparr>tweepy_imported = True, dotenv_imported = True, llm_providers_imported = True,
      database_imported = True,
      provider_probes = \<lparr>anthropic = NoApiKey, openai = NoApiKey, gemini = NoApiKey\<rparr>,
      llm_provider = ascii ''auto'', use_database = True, mongodb_ping = True,
      mongodb_server = blank_server, mongodb_name = ascii ''xynae'', agent_count = None,
      agent_draw = 0, twitter_credentials = True, twitter_login = True,
      personality_arg = None\<rparr>"

definition store_driver_missing :: startup where
  "store_driver_missing =
     no_keys\<lparr>database_imported := False, use_database := False,
       provider_probes := \<lparr>anthropic = Available, openai = Available, gemini = Available\<rparr>\<rparr>"

text \<open>A position for every string, as a hash would give it.\<close>

definition example_slot :: "pystr \<Rightarrow> nat" where
  "example_slot s = foldl (\<lambda>h c. (31 * h + c) mod 1024) 7 s"

subsection \<open>Observations used in the properties\<close>

text \<open>Whether a call to the client returned.\<close>

definition returned :: "'a outcome \<Rightarrow> bool" where
  "returned r =
     (case r of Returned v \<Rightarrow> True | TweepyException e \<Rightarrow> False | OtherException e \<Rightarrow> False)"

text \<open>Whether a call to the client raised something else than a \<open>TweepyException\<close>.\<close>

definition unexpected :: "'a outcome \<Rightarrow> bool" where
  "unexpected r =
     (case r of Returned v \<Rightarrow> False | TweepyException e \<Rightarrow> False | OtherException e \<Rightarrow> True)"

text \<open>The id under which a fetched mention is tracked: \<open>str(mention.id)\<close>.\<close>

definition tracked_id :: "mention_step \<Rightarrow> pystr" where
  "tracked_id s = str_int (mention_id (fetched s))"

text \<open>
  The mention documents and the reply documents that the store holds for a mention,
  and the replies to a mention among the effects.
\<close>

definition mention_records :: "pystr \<Rightarrow> Xynae \<Rightarrow> mention_doc list" where
  "mention_records tid x =
     (case db x of None \<Rightarrow> [] | Some d \<Rightarrow> filter (\<lambda>m. mn_tweet_id m = tid) (mentions d))"

definition reply_records :: "pystr \<Rightarrow> Xynae \<Rightarrow> reply_doc list" where
  "reply_records tid x =
     (case db x of None \<Rightarrow> [] | Some d \<Rightarrow> filter (\<lambda>r. original_tweet_id r = tid) (replies d))"

definition is_reply_to :: "pystr \<Rightarrow> effect \<Rightarrow> bool" where
  "is_reply_to tid e =
     (case e of
        CreateTweet text target \<Rightarrow> (case target of None \<Rightarrow> False | Some i \<Rightarrow> str_int i = tid)
      | Sleep seconds \<Rightarrow> False)"

definition replies_sent_to :: "pystr \<Rightarrow> effect list \<Rightarrow> effect list" where
  "replies_sent_to tid effects = filter (is_reply_to tid) effects"

text \<open>A run of checks, one after the other.\<close>

definition after_checks :: "(pystr \<Rightarrow> nat) \<Rightarrow> mentions_check list \<Rightarrow> Xynae \<Rightarrow> Xynae" where
  "after_checks slot cs x = foldl (\<lambda>x c. fst (check_and_reply_to_mentions slot c x)) x cs"

text \<open>
  A fetched mention whose reply is published, a fetched mention whose reply is refused
  by the platform, and a check that fetches the given mentions.
\<close>

definition replied_step :: "int \<Rightarrow> mention_step" where
  "replied_step i =
     \<lparr>fetched = \<lparr>mention_id = i, mention_text = ascii ''hello'', author_id = 7\<rparr>,
      get_user = Returned (Some (ascii ''bob'')),
      reply_env = \<lparr>chinese_draw = 0.7, reply_temperature_draw = 0.9,
                    reply_backends = anthropic_down\<rparr>,
      create_tweet = Returned (Some (i + 1000)), step_utcnow = 0\<rparr>"

definition refused_step :: "int \<Rightarrow> mention_step" where
  "refused_step i = (replied_step i)\<lparr>create_tweet := TweepyException (ascii ''403 Forbidden'')\<rparr>"

definition fetch :: "mention_step list \<Rightarrow> mentions_check" where
  "fetch steps = \<lparr>get_me = Returned (Some 1), get_users_mentions = Returned steps\<rparr>"

text \<open>Eleven checks in which the mentions 1 to 101 are fetched and replied to.\<close>

definition eleven_checks :: "mentions_check list" where
  "eleven_checks =
     map (\<lambda>ids. fetch (map replied_step ids))
       [[1..10], [11..20], [21..30], [31..40], [41..50], [51..60], [61..70], [71..80],
        [81..90], [91..100], [101..101]]"

text \<open>A connected store that holds nothing, and one that holds mention 123 as replied.\<close>

definition empty_store :: XynaeDatabase where
  "empty_store = XynaeDatabase_init True blank_server (ascii ''xynae'')"

definition store_with_replied_mention :: XynaeDatabase where
  "store_with_replied_mention =
     mark_mention_replied 5 (ascii ''123'')
       (snd (save_mention 4 (ascii ''123'') (ascii ''hello'') (ascii ''bob'') (ascii ''7'') False
               empty_store))"

text \<open>A set after the given strings were added to it one after the other.\<close>

definition add_all :: "(pystr \<Rightarrow> nat) \<Rightarrow> pystr list \<Rightarrow> pyset \<Rightarrow> pyset" where
  "add_all slot xs s = foldl (\<lambda>s x. set_add slot x s) s xs"

section \<open>Properties of the store\<close>

text \<open>
  C9. While the store is not connected, every store operation (\<open>save_tweet\<close>,
  \<open>save_reply\<close>, \<open>save_mention\<close>, \<open>mark_mention_replied\<close>, \<open>is_tweet_replied\<close>,
  \<open>save_conversation\<close>, \<open>get_recent_tweets\<close>, \<open>get_stats\<close>) returns its sentinel
  (\<open>None\<close>, \<open>False\<close>, the empty list, the connected-false statistics) and leaves the
  store, with all of its collections, as it was.
\<close>

theorem store_unavailable_sentinels:
  assumes "\<not> connected d"
  shows "save_tweet now text ttype lang p tid d = (None, d)
       \<and> save_reply now oid otext user rtext rid d = (None, d)
       \<and> save_mention now mid mtext muser author r d = (None, d)
       \<and> mark_mention_replied now mid d = d
       \<and> is_tweet_replied mid d = False
       \<and> save_conversation now ctype ctext meta d = (None, d)
       \<and> get_recent_tweets limit d = []
       \<and> get_stats d = [(''connected'', SBool False)]"
  using assms
  by (simp add: save_tweet_def save_reply_def save_mention_def mark_mention_replied_def
      is_tweet_replied_def save_conversation_def get_recent_tweets_def get_stats_def)


theorem store_unavailable_sentinels_witness:
  "\<not> connected memory_only_store
   \<and> save_tweet 0 (ascii ''hello'') (ascii ''insight'') (ascii ''english'') False None
        memory_only_store = (None, memory_only_store)
   \<and> save_reply 0 (ascii ''123'') (ascii ''hi'') (ascii ''bob'') (ascii ''welcome'') None
        memory_only_store = (None, memory_only_store)
   \<and> save_mention 0 (ascii ''123'') (ascii ''hi'') (ascii ''bob'') (ascii ''7'') False
        memory_only_store = (None, memory_only_store)
   \<and> mark_mention_replied 0 (ascii ''123'') memory_only_store = memory_only_store
   \<and> is_tweet_replied (ascii ''123'') memory_only_store = False
   \<and> save_conversation 0 (ascii ''tweet_generation'') (ascii ''x'') None
        memory_only_store = (None, memory_only_store)
   \<and> get_recent_tweets 10 memory_only_store = []
   \<and> get_stats memory_only_store = [(''connected'', SBool False)]"
proof -
  have h: "\<not> connected memory_only_store"
    by (simp add: memory_only_store_def XynaeDatabase_init_def)
  show ?thesis
    using h store_unavailable_sentinels [OF h] by simp
qed

section \<open>Properties of the provider manager\<close>

lemma provider_names_differ:
  "ascii ''anthropic'' \<noteq> ascii ''openai''" "ascii ''openai'' \<noteq> ascii ''anthropic''"
  "ascii ''anthropic'' \<noteq> ascii ''auto''" "ascii ''openai'' \<noteq> ascii ''auto''"
  "ascii ''auto'' \<noteq> ascii ''anthropic''" "ascii ''auto'' \<noteq> ascii ''openai''"
  by (simp_all add: ascii_def)

lemma two_providers_simps:
  "providers (two_providers p) = [ascii ''anthropic'', ascii ''openai'']"
  "preferred_provider (two_providers p) = p"
  by (simp_all add: two_providers_def LLMProviderManager_init_def initialize_providers_def)

text \<open>
  C1. With the providers anthropic and openai registered in this order, the preferred
  provider left at "auto", anthropic failing and openai answering, \<open>generate\<close> should
  make two calls (anthropic, then openai). It makes three: the fallback loop leaves out
  the name "auto", which no provider has, and calls anthropic a second time before it
  reaches openai.
\<close>

theorem generate_auto_calls_failed_provider_again:
  "generate anthropic_down (two_providers (ascii ''auto'')) sample_request None [] =
     (Inr (ascii ''hello''),
      [(ascii ''anthropic'', sample_request),
       (ascii ''anthropic'', sample_request),
       (ascii ''openai'', sample_request)])"
  by (simp add: generate_def get_provider_def auto_selection_def skipped_name_def
      provider_generate_def anthropic_down_def two_providers_simps provider_names_differ)

text \<open>
  With the preferred provider named, the same backends are called as the specification says:
  anthropic once, then openai.
\<close>

lemma generate_named_skips_failed_provider:
  "generate anthropic_down (two_providers (ascii ''anthropic'')) sample_request None [] =
     (Inr (ascii ''hello''),
      [(ascii ''anthropic'', sample_request), (ascii ''openai'', sample_request)])"
  by (simp add: generate_def get_provider_def auto_selection_def skipped_name_def
      provider_generate_def anthropic_down_def two_providers_simps provider_names_differ)

text \<open>
  C6. When the selected provider and every fallback provider fail, \<open>generate\<close> raises
  the all-providers-failed error, but the error it carries is the one of the selected
  provider, the first of the chain: with anthropic failing with "rate limited" and then
  openai with "quota exceeded", the error raised carries "rate limited".
\<close>

theorem generate_all_failed_carries_first_error:
  "generate all_down (two_providers (ascii ''anthropic'')) sample_request None [] =
     (Inl (AllProvidersFailed (ascii ''rate limited'')),
      [(ascii ''anthropic'', sample_request), (ascii ''openai'', sample_request)])"
  by (simp add: generate_def get_provider_def auto_selection_def skipped_name_def
      provider_generate_def all_down_def two_providers_simps provider_names_differ)

text \<open>
  In general the error carried is what the selected provider raised on the first call;
  the errors of the fallback providers are dropped.
\<close>

lemma all_providers_failed_error:
  assumes "generate w m req provider calls = (Inl (AllProvidersFailed e), calls')"
  shows "\<exists>selected. get_provider m provider = Inr selected
           \<and> fst (provider_generate w selected req calls) = Inl e"
  using assms
  by (auto simp: generate_def get_provider_def auto_selection_def named_selection_def
      split: sum.splits prod.splits option.splits if_splits list.splits)

section \<open>Properties of tweet generation\<close>

lemma length_ascii [simp]: "length (ascii s) = length s"
  by (simp add: ascii_def)

lemma length_str_nat_four:
  assumes "1000 \<le> n" and "n < 10000"
  shows "length (str_nat n) = 4"
proof -
  have "\<not> n < 10" "\<not> n div 10 < 10" "\<not> n div 10 div 10 < 10" "n div 10 div 10 div 10 < 10"
    using assms by auto
  then show ?thesis
    by (simp add: str_nat.simps [of n] str_nat.simps [of "n div 10"]
        str_nat.simps [of "n div 10 div 10"] str_nat.simps [of "n div 10 div 10 div 10"])
qed

lemma randint_range: "lo \<le> hi \<Longrightarrow> lo \<le> randint lo hi k \<and> randint lo hi k \<le> hi"
  unfolding randint_def
  by (smt (verit) mod_less_divisor nat_int nat_less_iff of_nat_0_le_iff zero_less_nat_eq)

lemma length_entity_number [simp]: "length (str_int (randint 1000 9999 k)) = 4"
proof -
  have "1000 \<le> randint 1000 9999 k \<and> randint 1000 9999 k \<le> 9999"
    by (rule randint_range) simp
  then have "1000 \<le> nat (randint 1000 9999 k)" "nat (randint 1000 9999 k) < 10000"
    by linarith+
  then show ?thesis
    using \<open>1000 \<le> randint 1000 9999 k \<and> randint 1000 9999 k \<le> 9999\<close>
    by (simp add: str_int_def length_str_nat_four)
qed

lemma dict_get_cases:
  "dict_get d k dflt = dflt \<or> (k, dict_get d k dflt) \<in> set d"
  by (auto simp: dict_get_def split: option.splits dest: map_of_SomeD)

lemma fallback_tweet_short: "length (fallback_tweet e ttype lang) \<le> 280"
proof -
  let ?a = "randint 1000 9999 (english_entity_draw e)"
  let ?b = "randint 1000 9999 (chinese_entity_draw e)"
  let ?c = "randint 1000 9999 (mixed_entity_draw e)"
  let ?table = "dict_get (fallbacks ?a ?b ?c) lang (english_fallbacks ?a)"
  have tables: "?table = english_fallbacks ?a \<or> (lang, ?table) \<in> set (fallbacks ?a ?b ?c)"
    by (rule dict_get_cases)
  have entry: "dict_get ?table ttype default_fallback = default_fallback
        \<or> (ttype, dict_get ?table ttype default_fallback) \<in> set ?table"
    by (rule dict_get_cases)
  have dflt: "length default_fallback \<le> 280"
    by (simp add: default_fallback_def)
  have eng: "\<And>k v. (k, v) \<in> set (english_fallbacks ?a) \<Longrightarrow> length v \<le> 280"
    by (auto simp: english_fallbacks_def)
  have all: "\<And>l t k v. (l, t) \<in> set (fallbacks ?a ?b ?c) \<Longrightarrow> (k, v) \<in> set t \<Longrightarrow> length v \<le> 280"
    using eng by (auto simp: fallbacks_def)
  show ?thesis
    unfolding fallback_tweet_def using tables entry dflt eng all by metis
qed

lemma shorten_short: "length (shorten t) \<le> 280"
  by (simp add: shorten_def)

lemma example_manager_simps:
  "llm_manager (example_agent store) = two_providers (ascii ''anthropic'')"
  "twitter_client (example_agent store) = True"
  "db (example_agent store) = store"
  "replied_tweets (example_agent store) = []"
  by (simp_all add: example_agent_def)

lemma long_winded_answer:
  "fst (generate long_winded (two_providers (ascii ''anthropic'')) req None []) =
     Inr (replicate 300 97)"
  by (simp add: generate_def get_provider_def auto_selection_def provider_generate_def
      long_winded_def two_providers_simps provider_names_differ)


text \<open>
  C10. For every tweet type and language, \<open>generate_tweet\<close> returns a text of at most
  280 characters: an answer of the manager that is longer than 280 characters is cut
  to its first 277 characters followed by "...", a shorter answer is returned as it
  is, and when the manager raises, the static fallback text that is returned has at
  most 280 characters.
\<close>

theorem generate_tweet_at_most_280:
  "length (fst (generate_tweet e x ttype lang)) \<le> 280
   \<and> (\<forall>answer. fst (generate (tweet_backends e) (llm_manager x) (tweet_request e x ttype lang)
                      None []) = Inr answer
        \<longrightarrow> fst (generate_tweet e x ttype lang) =
            (if length answer > 280 then take 277 answer @ ascii ''...'' else answer))
   \<and> (\<forall>err. fst (generate (tweet_backends e) (llm_manager x) (tweet_request e x ttype lang)
                   None []) = Inl err
        \<longrightarrow> fst (generate_tweet e x ttype lang) = fallback_tweet e ttype (tweet_language e lang)
            \<and> length (fallback_tweet e ttype (tweet_language e lang)) \<le> 280)"
  by (simp add: generate_tweet_def Let_def shorten_def fallback_tweet_short split: sum.splits)

theorem generate_tweet_at_most_280_witness:
  "fst (generate (tweet_backends (example_draws long_winded)) (llm_manager (example_agent None))
          (tweet_request (example_draws long_winded) (example_agent None) (ascii ''insight'')
             (ascii ''english'')) None []) = Inr (replicate 300 97)
   \<and> fst (generate_tweet (example_draws long_winded) (example_agent None) (ascii ''insight'')
            (ascii ''english'')) = replicate 277 97 @ ascii ''...''
   \<and> length (fst (generate_tweet (example_draws long_winded) (example_agent None)
                    (ascii ''insight'') (ascii ''english''))) \<le> 280"
proof -
  have answer: "fst (generate (tweet_backends (example_draws long_winded))
          (llm_manager (example_agent None))
          (tweet_request (example_draws long_winded) (example_agent None) (ascii ''insight'')
             (ascii ''english'')) None []) = Inr (replicate 300 97)"
    by (simp add: example_draws_def example_manager_simps long_winded_answer)
  show ?thesis
    using answer
      generate_tweet_at_most_280 [of "example_draws long_winded" "example_agent None"
        "ascii ''insight''" "ascii ''english''"]
    by simp
qed


section \<open>Properties of the main loop\<close>

lemma with_db_fields [simp]:
  "twitter_client (with_db f x) = twitter_client x"
  "replied_tweets (with_db f x) = replied_tweets x"
  "llm_manager (with_db f x) = llm_manager x"
  "personality (with_db f x) = personality x"
  "db (with_db f x) = map_option f (db x)"
  by (simp_all add: with_db_def)

lemma reply_to_mention_client:
  "twitter_client (fst (reply_to_mention slot s x)) = twitter_client x"
  by (simp add: reply_to_mention_def Let_def split: outcome.splits option.splits)

lemma reply_loop_client:
  "twitter_client (fst (reply_loop slot steps x)) = twitter_client x"
proof (induction steps arbitrary: x)
  case Nil
  then show ?case by simp
next
  case (Cons s steps)
  obtain x' effects go_on where step: "reply_to_mention slot s x = (x', effects, go_on)"
    by (cases "reply_to_mention slot s x") auto
  have "twitter_client x' = twitter_client x"
    using reply_to_mention_client [of slot s x] step by simp
  moreover obtain x'' later where rest: "reply_loop slot steps x' = (x'', later)"
    by (cases "reply_loop slot steps x'") auto
  moreover have "twitter_client x'' = twitter_client x'"
    using Cons.IH [of x'] rest by simp
  ultimately show ?case
    using step by simp
qed

lemma clean_up_client [simp]: "twitter_client (clean_up slot x) = twitter_client x"
  by (simp add: clean_up_def)

lemma check_client:
  "twitter_client (fst (check_and_reply_to_mentions slot c x)) = twitter_client x"
proof -
  have "twitter_client (clean_up slot (fst (reply_loop slot found x))) = twitter_client x"
    for found
    by (simp add: reply_loop_client)
  then show ?thesis
    by (simp add: check_and_reply_to_mentions_def split_beta
        split: outcome.splits option.splits)
qed

lemma generate_tweet_client:
  "twitter_client (snd (generate_tweet e x ttype lang)) = twitter_client x"
  by (simp add: generate_tweet_def Let_def split: sum.splits)

lemma post_tweet_timers:
  "snd (fst (post_tweet it tweet ttype lang (x, t))) =
     (if twitter_client x \<and> returned (post it) then t\<lparr>last_tweet_time := current_time it\<rparr>
      else t)"
  by (simp add: post_tweet_def returned_def split: outcome.splits)

lemma post_tweet_client:
  "twitter_client (fst (fst (post_tweet it tweet ttype lang (x, t)))) = twitter_client x"
  by (simp add: post_tweet_def split: outcome.splits)

lemma check_step_timers:
  "snd (fst (check_step slot check_interval it (x, t))) =
     (if twitter_client x \<and> current_time it - last_check_time t \<ge> check_interval
      then t\<lparr>last_check_time := current_time it\<rparr> else t)"
  by (simp add: check_step_def split_beta)

lemma check_step_client:
  "twitter_client (fst (fst (check_step slot check_interval it (x, t)))) = twitter_client x"
  by (simp add: check_step_def split_beta check_client)

lemma tweet_step_timers:
  "snd (fst (tweet_step tweet_interval it (x, t))) =
     (if current_time it - last_tweet_time t \<ge> tweet_interval \<and> twitter_client x
         \<and> returned (post it)
      then t\<lparr>last_tweet_time := current_time it\<rparr> else t)"
proof -
  have "snd (fst (post_tweet it tweet ttype lang (snd (generate_tweet e x ttype lang), t))) =
     (if twitter_client x \<and> returned (post it) then t\<lparr>last_tweet_time := current_time it\<rparr>
      else t)" for tweet ttype lang e
    by (simp add: post_tweet_timers generate_tweet_client)
  then show ?thesis
    by (simp add: tweet_step_def split_beta Let_def)
qed

lemma iteration_body_timers:
  "snd (fst (iteration_body slot tweet_interval check_interval it (x, t))) =
     \<lparr>last_tweet_time =
        (if current_time it - last_tweet_time t \<ge> tweet_interval \<and> twitter_client x
            \<and> returned (post it)
         then current_time it else last_tweet_time t),
      last_check_time =
        (if twitter_client x \<and> current_time it - last_check_time t \<ge> check_interval
         then current_time it else last_check_time t)\<rparr>"
proof -
  obtain x1 t1 checked where first: "check_step slot check_interval it (x, t) = ((x1, t1), checked)"
    by (metis surj_pair)
  have t1: "t1 = (if twitter_client x \<and> current_time it - last_check_time t \<ge> check_interval
                  then t\<lparr>last_check_time := current_time it\<rparr> else t)"
    using check_step_timers [of slot check_interval it x t] first by simp
  have x1: "twitter_client x1 = twitter_client x"
    using check_step_client [of slot check_interval it x t] first by simp
  have "snd (fst (iteration_body slot tweet_interval check_interval it (x, t))) =
          snd (fst (tweet_step tweet_interval it (x1, t1)))"
    using first by (simp add: iteration_body_def split_beta)
  also have "\<dots> = (if current_time it - last_tweet_time t1 \<ge> tweet_interval \<and> twitter_client x
         \<and> returned (post it)
      then t1\<lparr>last_tweet_time := current_time it\<rparr> else t1)"
    by (simp add: tweet_step_timers x1)
  finally show ?thesis
    using t1 by (cases t) auto
qed

lemma example_iteration_simps:
  "current_time (example_iteration now sent) = now"
  "post (example_iteration now sent) = sent"
  "check (example_iteration now sent) = quiet_check"
  by (simp_all add: example_iteration_def)


lemma no_provider_ends_before_loop:
  assumes "tweepy_imported s" and "dotenv_imported s" and "LLMProviderManager_bound s"
    and "initialize_providers (provider_probes s) = []"
  shows "main slot s its = (Inl ProviderKeyRequired, [])"
  using assms
  by (simp add: main_def Xynae_init_def Let_def list_available_providers_def
      LLMProviderManager_init_def)

text \<open>
  C8. The start should fail only when no LLM backend is usable. With the keys of all
  three providers present, the store not asked for (\<open>use_database=False\<close>) and \<open>pymongo\<close>
  not installed, the import of \<open>database\<close> fails inside the \<open>try\<close> that also imports
  \<open>llm_providers\<close>; the handler sets both names to \<open>None\<close> and the constructor raises
  the import error of the providers, so that the program ends before any iteration of
  the loop. A missing store driver is fatal, although the constructor tests
  \<open>XynaeDatabase is not None\<close> in order to go on without a store.
\<close>

theorem missing_store_driver_is_fatal:
  "initialize_providers (provider_probes store_driver_missing) =
     [ascii ''anthropic'', ascii ''openai'', ascii ''gemini'']
   \<and> \<not> use_database store_driver_missing
   \<and> llm_providers_imported store_driver_missing
   \<and> \<not> database_imported store_driver_missing
   \<and> Xynae_init store_driver_missing = Inl ProvidersNotImported
   \<and> main example_slot store_driver_missing [example_iteration 2000 (Returned (Some 55))] =
       (Inl ProvidersNotImported, [])"
  by (simp add: store_driver_missing_def no_keys_def main_def Xynae_init_def
      LLMProviderManager_bound_def initialize_providers_def)

text \<open>
  With \<open>pymongo\<close> installed the same start succeeds, with or without a store that can
  be reached.
\<close>

lemma start_succeeds_with_store_driver:
  "\<exists>x. Xynae_init (store_driver_missing\<lparr>database_imported := True, use_database := u,
                            mongodb_ping := p\<rparr>) = Inr x"
  by (simp add: store_driver_missing_def no_keys_def Xynae_init_def Let_def
      LLMProviderManager_bound_def list_available_providers_def LLMProviderManager_init_def
      initialize_providers_def)




lemma tweet_step_client:
  "twitter_client (fst (fst (tweet_step tweet_interval it (x, t)))) = twitter_client x"
proof -
  have "twitter_client (fst (fst (post_tweet it tweet ttype lang
          (snd (generate_tweet e x ttype lang), t)))) = twitter_client x" for tweet ttype lang e
    by (simp add: post_tweet_client generate_tweet_client)
  then show ?thesis
    by (simp add: tweet_step_def split_beta Let_def)
qed

lemma iteration_body_client:
  "twitter_client (fst (fst (iteration_body slot tweet_interval check_interval it (x, t)))) =
     twitter_client x"
proof -
  obtain x1 t1 checked where first: "check_step slot check_interval it (x, t) = ((x1, t1), checked)"
    by (metis surj_pair)
  have "twitter_client x1 = twitter_client x"
    using check_step_client [of slot check_interval it x t] first by simp
  then show ?thesis
    using first tweet_step_client [of tweet_interval it x1 t1]
    by (simp add: iteration_body_def split_beta)
qed

lemma run_iteration_state:
  "fst (run_iteration slot tweet_interval check_interval it xt) =
     fst (iteration_body slot tweet_interval check_interval it xt)"
  by (simp add: run_iteration_def split_beta Let_def)

lemma run_iteration_effects:
  "snd (run_iteration slot tweet_interval check_interval it xt) =
     snd (iteration_body slot tweet_interval check_interval it xt) @
     [Sleep (sleep_length tweet_interval check_interval (current_time it)
               (snd (fst (iteration_body slot tweet_interval check_interval it xt))))] @
     (if sleep_raises (sleep_length tweet_interval check_interval (current_time it)
           (snd (fst (iteration_body slot tweet_interval check_interval it xt))))
      then [Sleep 300] else [])"
  by (simp add: run_iteration_def split_beta Let_def)

lemma last_n_two [simp]: "last_n 2 (xs @ [a, b]) = [a, b]"
  by (simp add: last_n_def)

text \<open>
  When the two intervals are not negative, the length given to the sleep is negative
  exactly when a post was published before and more than the post interval has
  passed since. After an iteration this is so exactly when a post was published in
  an earlier iteration, the post was overdue and it was not published in this one.
\<close>

lemma sleep_length_negative_iff:
  assumes "0 \<le> check_interval" and "0 \<le> tweet_interval"
  shows "sleep_length tweet_interval check_interval now t < 0 \<longleftrightarrow>
           last_tweet_time t > 0 \<and> tweet_interval < now - last_tweet_time t"
  using assms by (auto simp: sleep_length_def time_until_tweet_def)

lemma sleep_length_after_iteration:
  assumes "0 \<le> check_interval" and "0 \<le> tweet_interval"
  shows "sleep_length tweet_interval check_interval (current_time it)
           (snd (fst (iteration_body slot tweet_interval check_interval it (x, t)))) < 0 \<longleftrightarrow>
         last_tweet_time t > 0 \<and> tweet_interval < current_time it - last_tweet_time t
           \<and> \<not> (twitter_client x \<and> returned (post it))"
  using assms
  by (auto simp: sleep_length_negative_iff iteration_body_timers)

text \<open>
  C7. The length of the sleep that ends an iteration should be the smaller of the check
  interval and the time until the next post, floored at zero, and so never negative.
  After a post published at time 2000, an iteration at time 4000 in which
  \<open>create_tweet\<close> raises a \<open>TweepyException\<close> ends with \<open>time.sleep(-800)\<close>: the length is
  not floored, the call raises, and the handler of the loop sleeps 300 seconds.
\<close>

theorem negative_sleep_after_failed_publish:
  "last_n 2 (snd (run example_slot 1200 300
      [example_iteration 2000 (Returned (Some 55)),
       example_iteration 4000 (TweepyException (ascii ''503''))]
      (example_agent None))) = [Sleep (- 800), Sleep 300]"
proof -
  let ?it1 = "example_iteration 2000 (Returned (Some 55))"
  let ?it2 = "example_iteration 4000 (TweepyException (ascii ''503''))"
  let ?t0 = "\<lparr>last_tweet_time = 0, last_check_time = 0\<rparr>"
  obtain x1 t1 e1 where r1:
    "run_iteration example_slot 1200 300 ?it1 (example_agent None, ?t0) = ((x1, t1), e1)"
    by (metis surj_pair)
  have b1: "fst (iteration_body example_slot 1200 300 ?it1 (example_agent None, ?t0)) = (x1, t1)"
    using r1 run_iteration_state [of example_slot 1200 300 ?it1 "(example_agent None, ?t0)"]
    by simp
  have x1: "twitter_client x1"
    using iteration_body_client [of example_slot 1200 300 ?it1 "example_agent None" ?t0] b1
    by (simp add: example_manager_simps)
  have t1: "t1 = \<lparr>last_tweet_time = 2000, last_check_time = 2000\<rparr>"
    using iteration_body_timers [of example_slot 1200 300 ?it1 "example_agent None" ?t0] b1
    by (simp add: example_manager_simps example_iteration_simps returned_def)
  obtain x2 t2 e2 where r2:
    "run_iteration example_slot 1200 300 ?it2 (x1, t1) = ((x2, t2), e2)"
    by (metis surj_pair)
  have b2: "fst (iteration_body example_slot 1200 300 ?it2 (x1, t1)) = (x2, t2)"
    using r2 run_iteration_state [of example_slot 1200 300 ?it2 "(x1, t1)"] by simp
  have t2: "t2 = \<lparr>last_tweet_time = 2000, last_check_time = 4000\<rparr>"
    using iteration_body_timers [of example_slot 1200 300 ?it2 x1 t1] b2 x1 t1
    by (simp add: example_iteration_simps returned_def)
  have "sleep_length 1200 300 (current_time ?it2) t2 = - 800"
    using t2 by (simp add: sleep_length_def time_until_tweet_def example_iteration_simps)
  then have e2: "e2 = snd (iteration_body example_slot 1200 300 ?it2 (x1, t1)) @
      [Sleep (- 800), Sleep 300]"
    using run_iteration_effects [of example_slot 1200 300 ?it2 "(x1, t1)"] r2 b2
    by (simp add: sleep_raises_def)
  have "snd (run example_slot 1200 300 [?it1, ?it2] (example_agent None)) = e1 @ e2"
    using r1 r2 by (simp add: run_def)
  then show ?thesis
    using e2 by (simp del: append_assoc add: append_assoc [symmetric])
qed

section \<open>Properties of the mention check\<close>

lemma store_ops_connected [simp]:
  "connected (snd (save_mention now tid text user author r d)) = connected d"
  "connected (snd (save_reply now tid text user reply rid d)) = connected d"
  "connected (mark_mention_replied now tid d) = connected d"
  by (simp_all add: save_mention_def save_reply_def mark_mention_replied_def)

lemma filter_update_one:
  assumes "\<And>y. p y \<Longrightarrow> \<not> q y \<and> \<not> q (f y)"
  shows "filter q (update_one p f xs) = filter q xs"
  using assms by (induction xs) auto

lemma filter_mark_other:
  assumes "tid \<noteq> M"
  shows "filter (\<lambda>m. mn_tweet_id m = M)
           (update_one (\<lambda>m. mn_tweet_id m = tid)
              (\<lambda>m. m\<lparr>replied := True, replied_at := Some now\<rparr>) docs) =
         filter (\<lambda>m. mn_tweet_id m = M) docs"
  using assms by (intro filter_update_one) auto

lemma find_snoc: "\<not> p y \<Longrightarrow> find p (xs @ [y]) = find p xs"
  by (induction xs) auto

lemma find_filter: "find (\<lambda>m. p m \<and> q m) xs = find q (filter p xs)"
  by (induction xs) auto

lemma already_replied_store:
  assumes "db_ready x"
  shows "already_replied x tid = (find replied (mention_records tid x) \<noteq> None)"
  using assms
  by (auto simp: already_replied_def db_ready_def is_connected_def is_tweet_replied_def
      mention_records_def find_filter split: option.splits)

lemma already_replied_memory:
  assumes "\<not> db_ready x"
  shows "already_replied x tid = (tid \<in> set (replied_tweets x))"
  using assms by (simp add: already_replied_def)

lemma set_set_add [simp]: "set (set_add slot y s) = insert y (set s)"
  by (simp add: set_add_def set_insort_key insert_absorb)

text \<open>One mention, in memory-only mode and in store mode.\<close>

lemma step_memory:
  assumes "\<not> db_ready x"
  shows "reply_to_mention slot s x =
     (if tracked_id s \<in> set (replied_tweets x) then (x, [], True)
      else case create_tweet s of
             Returned data \<Rightarrow>
               (x\<lparr>replied_tweets := set_add slot (tracked_id s) (replied_tweets x)\<rparr>,
                [CreateTweet (generate_reply (reply_env s) x (mention_text (fetched s))
                   (case get_user s of
                          Returned (Some name) \<Rightarrow> name
                        | Returned None \<Rightarrow> ascii ''unknown''
                        | TweepyException e \<Rightarrow> ascii ''unknown''
                        | OtherException e \<Rightarrow> ascii ''unknown''))
                   (Some (mention_id (fetched s))), Sleep 5], True)
           | TweepyException e \<Rightarrow>
               (x, [CreateTweet (generate_reply (reply_env s) x (mention_text (fetched s))
                   (case get_user s of
                          Returned (Some name) \<Rightarrow> name
                        | Returned None \<Rightarrow> ascii ''unknown''
                        | TweepyException e \<Rightarrow> ascii ''unknown''
                        | OtherException e \<Rightarrow> ascii ''unknown''))
                   (Some (mention_id (fetched s)))], True)
           | OtherException e \<Rightarrow>
               (x, [CreateTweet (generate_reply (reply_env s) x (mention_text (fetched s))
                   (case get_user s of
                          Returned (Some name) \<Rightarrow> name
                        | Returned None \<Rightarrow> ascii ''unknown''
                        | TweepyException e \<Rightarrow> ascii ''unknown''
                        | OtherException e \<Rightarrow> ascii ''unknown''))
                   (Some (mention_id (fetched s)))], False))"
  using assms
  by (simp add: reply_to_mention_def Let_def already_replied_def tracked_id_def
      split: outcome.splits)

lemma step_db_ready:
  "db_ready (fst (reply_to_mention slot s x)) = db_ready x"
  by (cases "db x")
    (auto simp: reply_to_mention_def Let_def db_ready_def is_connected_def with_db_def
      split: outcome.splits)

lemma step_no_reply:
  assumes "already_replied x (tracked_id s) \<or> tracked_id s \<noteq> M"
  shows "replies_sent_to M (fst (snd (reply_to_mention slot s x))) = []"
  using assms
  by (auto simp: reply_to_mention_def Let_def replies_sent_to_def is_reply_to_def tracked_id_def
      split: outcome.splits)

lemma step_attempt:
  assumes "\<not> already_replied x (tracked_id s)"
  shows "replies_sent_to (tracked_id s) (fst (snd (reply_to_mention slot s x))) \<noteq> []"
  using assms
  by (auto simp: reply_to_mention_def Let_def replies_sent_to_def is_reply_to_def tracked_id_def
      split: outcome.splits)

lemma step_goes_on:
  "snd (snd (reply_to_mention slot s x)) =
     (already_replied x (tracked_id s) \<or> \<not> unexpected (create_tweet s))"
  by (auto simp: reply_to_mention_def Let_def unexpected_def tracked_id_def
      split: outcome.splits)

lemma step_skipped:
  assumes "already_replied x (tracked_id s)"
  shows "fst (reply_to_mention slot s x) = x"
  using assms by (simp add: reply_to_mention_def tracked_id_def)

lemma step_records_other:
  assumes "tracked_id s \<noteq> M"
  shows "mention_records M (fst (reply_to_mention slot s x)) = mention_records M x
       \<and> reply_records M (fst (reply_to_mention slot s x)) = reply_records M x"
proof (cases "db x")
  case None
  then show ?thesis
    by (simp add: reply_to_mention_def Let_def db_ready_def mention_records_def
        reply_records_def tracked_id_def split: outcome.splits)
next
  case (Some d)
  then show ?thesis
    using assms
    by (auto simp: reply_to_mention_def Let_def db_ready_def is_connected_def with_db_def
        mention_records_def reply_records_def tracked_id_def save_mention_def save_reply_def
        mark_mention_replied_def filter_mark_other split: outcome.splits)
qed

lemma step_records_failed:
  assumes "\<not> returned (create_tweet s)"
  shows "reply_records M (fst (reply_to_mention slot s x)) = reply_records M x
       \<and> replied_tweets (fst (reply_to_mention slot s x)) = replied_tweets x
       \<and> find replied (mention_records M (fst (reply_to_mention slot s x))) =
           find replied (mention_records M x)
       \<and> (db_ready x \<and> \<not> already_replied x (tracked_id s) \<longrightarrow>
            mention_records (tracked_id s) (fst (reply_to_mention slot s x)) \<noteq> [])"
  using assms
  by (cases "db x")
    (auto simp: reply_to_mention_def Let_def db_ready_def is_connected_def with_db_def
      mention_records_def reply_records_def tracked_id_def save_mention_def returned_def
      find_snoc split: outcome.splits)

lemma step_keeps_unreplied:
  assumes "\<not> already_replied x M"
    and "tracked_id s = M \<longrightarrow> \<not> returned (create_tweet s)"
  shows "\<not> already_replied (fst (reply_to_mention slot s x)) M"
proof (cases "db_ready x")
  case False
  then have mem: "\<not> db_ready (fst (reply_to_mention slot s x))"
    by (simp add: step_db_ready)
  have "M \<notin> set (replied_tweets (fst (reply_to_mention slot s x)))"
    using assms False
    by (auto simp: step_memory [OF False] already_replied_memory returned_def
        split: outcome.splits)
  then show ?thesis
    using mem by (simp add: already_replied_memory)
next
  case True
  then have store: "db_ready (fst (reply_to_mention slot s x))"
    by (simp add: step_db_ready)
  have "find replied (mention_records M (fst (reply_to_mention slot s x))) =
          find replied (mention_records M x)"
  proof (cases "tracked_id s = M")
    case True
    then show ?thesis
      using assms(2) step_records_failed [of s M slot x] by simp
  next
    case False
    then show ?thesis
      using step_records_other [of s M slot x] by simp
  qed
  then show ?thesis
    using assms(1) True store by (simp add: already_replied_store)
qed

lemma step_keeps_replied:
  assumes "db_ready x" and "already_replied x M"
  shows "already_replied (fst (reply_to_mention slot s x)) M
       \<and> mention_records M (fst (reply_to_mention slot s x)) = mention_records M x
       \<and> reply_records M (fst (reply_to_mention slot s x)) = reply_records M x
       \<and> replies_sent_to M (fst (snd (reply_to_mention slot s x))) = []"
proof (cases "tracked_id s = M")
  case True
  then show ?thesis
    using assms step_skipped [of x s slot] step_no_reply [of x s M slot] by simp
next
  case False
  have "db_ready (fst (reply_to_mention slot s x))"
    using assms(1) by (simp add: step_db_ready)
  then show ?thesis
    using False assms step_records_other [of s M slot x] step_no_reply [of x s M slot]
    by (simp add: already_replied_store)
qed

lemma step_records_grow:
  assumes "tracked_id s = M \<longrightarrow> \<not> returned (create_tweet s)"
  shows "set (mention_records M x) \<subseteq> set (mention_records M (fst (reply_to_mention slot s x)))"
proof (cases "tracked_id s = M")
  case False
  then show ?thesis
    using step_records_other [of s M slot x] by simp
next
  case True
  then have "\<not> returned (create_tweet s)"
    using assms by simp
  then show ?thesis
    by (cases "db x")
      (auto simp: reply_to_mention_def Let_def db_ready_def is_connected_def with_db_def
        mention_records_def tracked_id_def save_mention_def returned_def
        split: outcome.splits)
qed

lemma step_records_unreplied:
  assumes "tracked_id s = M \<longrightarrow> \<not> returned (create_tweet s)"
  shows "reply_records M (fst (reply_to_mention slot s x)) = reply_records M x"
  using assms step_records_other [of s M slot x] step_records_failed [of s M slot x]
  by (cases "tracked_id s = M") auto

lemma reply_loop_fst:
  "fst (reply_loop slot (s # rest) x) =
     (if snd (snd (reply_to_mention slot s x))
      then fst (reply_loop slot rest (fst (reply_to_mention slot s x)))
      else fst (reply_to_mention slot s x))"
  by (simp add: split_beta)

lemma reply_loop_snd:
  "snd (reply_loop slot (s # rest) x) =
     (if snd (snd (reply_to_mention slot s x))
      then fst (snd (reply_to_mention slot s x)) @
           snd (reply_loop slot rest (fst (reply_to_mention slot s x)))
      else fst (snd (reply_to_mention slot s x)))"
  by (simp add: split_beta)

lemma replies_sent_to_append [simp]:
  "replies_sent_to M (a @ b) = replies_sent_to M a @ replies_sent_to M b"
  by (simp add: replies_sent_to_def)

lemma replies_sent_to_Nil [simp]: "replies_sent_to M [] = []"
  by (simp add: replies_sent_to_def)

lemma loop_db_ready: "db_ready (fst (reply_loop slot steps x)) = db_ready x"
proof (induction steps arbitrary: x)
  case Nil
  then show ?case by simp
next
  case (Cons s steps)
  show ?case
    unfolding reply_loop_fst using Cons.IH [of "fst (reply_to_mention slot s x)"]
    by (simp add: step_db_ready)
qed

lemma loop_keeps_replied:
  assumes "db_ready x" and "already_replied x M"
  shows "already_replied (fst (reply_loop slot steps x)) M
       \<and> mention_records M (fst (reply_loop slot steps x)) = mention_records M x
       \<and> reply_records M (fst (reply_loop slot steps x)) = reply_records M x
       \<and> replies_sent_to M (snd (reply_loop slot steps x)) = []"
  using assms
proof (induction steps arbitrary: x)
  case Nil
  then show ?case by simp
next
  case (Cons s steps)
  let ?x' = "fst (reply_to_mention slot s x)"
  have step: "already_replied ?x' M
       \<and> mention_records M ?x' = mention_records M x
       \<and> reply_records M ?x' = reply_records M x
       \<and> replies_sent_to M (fst (snd (reply_to_mention slot s x))) = []"
    using step_keeps_replied [OF Cons.prems] by simp
  have "db_ready ?x'"
    using Cons.prems(1) by (simp add: step_db_ready)
  then have rest: "already_replied (fst (reply_loop slot steps ?x')) M
       \<and> mention_records M (fst (reply_loop slot steps ?x')) = mention_records M ?x'
       \<and> reply_records M (fst (reply_loop slot steps ?x')) = reply_records M ?x'
       \<and> replies_sent_to M (snd (reply_loop slot steps ?x')) = []"
    using Cons.IH [of ?x'] step by simp
  show ?case
    unfolding reply_loop_fst reply_loop_snd using step rest by simp
qed

lemma loop_keeps_unreplied:
  assumes "\<not> already_replied x M"
    and "\<forall>s \<in> set steps. tracked_id s = M \<longrightarrow> \<not> returned (create_tweet s)"
  shows "\<not> already_replied (fst (reply_loop slot steps x)) M
       \<and> reply_records M (fst (reply_loop slot steps x)) = reply_records M x
       \<and> set (mention_records M x) \<subseteq> set (mention_records M (fst (reply_loop slot steps x)))"
  using assms
proof (induction steps arbitrary: x)
  case Nil
  then show ?case by simp
next
  case (Cons s steps)
  let ?x' = "fst (reply_to_mention slot s x)"
  have here: "tracked_id s = M \<longrightarrow> \<not> returned (create_tweet s)"
    using Cons.prems(2) by simp
  have step: "\<not> already_replied ?x' M" "reply_records M ?x' = reply_records M x"
    "set (mention_records M x) \<subseteq> set (mention_records M ?x')"
    using step_keeps_unreplied [OF Cons.prems(1) here] step_records_unreplied [OF here]
      step_records_grow [OF here] by simp_all
  have rest: "\<not> already_replied (fst (reply_loop slot steps ?x')) M
       \<and> reply_records M (fst (reply_loop slot steps ?x')) = reply_records M ?x'
       \<and> set (mention_records M ?x') \<subseteq> set (mention_records M (fst (reply_loop slot steps ?x')))"
    using Cons.IH [of ?x'] step(1) Cons.prems(2) by simp
  show ?case
    unfolding reply_loop_fst using step rest by auto
qed

lemma step_attempt_or_unreplied:
  assumes "\<not> already_replied x M"
  shows "replies_sent_to M (fst (snd (reply_to_mention slot s x))) \<noteq> []
       \<or> \<not> already_replied (fst (reply_to_mention slot s x)) M"
proof (cases "tracked_id s = M")
  case True
  then show ?thesis
    using assms step_attempt [of x s slot] by simp
next
  case False
  then show ?thesis
    using step_keeps_unreplied [OF assms, of s slot] by simp
qed

lemma loop_attempts:
  assumes "\<not> already_replied x M"
    and "tracked_id s = M"
    and "\<forall>p \<in> set before. \<not> unexpected (create_tweet p)"
  shows "replies_sent_to M (snd (reply_loop slot (before @ s # rest) x)) \<noteq> []"
  using assms
proof (induction before arbitrary: x)
  case Nil
  then show ?case
    using step_attempt [of x s slot] by (simp add: reply_loop_snd del: reply_loop.simps)
next
  case (Cons p before)
  let ?x' = "fst (reply_to_mention slot p x)"
  have go: "snd (snd (reply_to_mention slot p x))"
    using Cons.prems(3) by (simp add: step_goes_on)
  show ?case
  proof (cases "replies_sent_to M (fst (snd (reply_to_mention slot p x))) = []")
    case False
    then show ?thesis
      using go by (simp add: reply_loop_snd del: reply_loop.simps)
  next
    case True
    then have "\<not> already_replied ?x' M"
      using step_attempt_or_unreplied [OF Cons.prems(1), where s = p and slot = slot] by simp
    then have "replies_sent_to M (snd (reply_loop slot (before @ s # rest) ?x')) \<noteq> []"
      using Cons.IH [of ?x'] Cons.prems by simp
    then show ?thesis
      using go by (simp add: reply_loop_snd del: reply_loop.simps)
  qed
qed

lemma step_persists:
  assumes "db_ready x" and "\<not> already_replied x (tracked_id s)"
    and "\<not> returned (create_tweet s)"
  shows "mention_records (tracked_id s) (fst (reply_to_mention slot s x)) \<noteq> []"
  using assms step_records_failed [of s "tracked_id s" slot x] by simp

lemma loop_persists:
  assumes "db_ready x" and "\<not> already_replied x M"
    and "tracked_id s = M"
    and "\<forall>p \<in> set before. \<not> unexpected (create_tweet p)"
    and "\<forall>p \<in> set (before @ s # rest). tracked_id p = M \<longrightarrow> \<not> returned (create_tweet p)"
  shows "mention_records M (fst (reply_loop slot (before @ s # rest) x)) \<noteq> []"
  using assms
proof (induction before arbitrary: x)
  case Nil
  let ?x' = "fst (reply_to_mention slot s x)"
  have failed: "\<not> returned (create_tweet s)"
    using Nil.prems by simp
  have saved: "mention_records M ?x' \<noteq> []"
    using step_persists [of x s slot] Nil.prems failed by simp
  have unreplied: "\<not> already_replied ?x' M"
    using step_keeps_unreplied [of x M s slot] Nil.prems failed by simp
  have "set (mention_records M ?x') \<subseteq> set (mention_records M (fst (reply_loop slot rest ?x')))"
    using loop_keeps_unreplied [OF unreplied, of rest slot] Nil.prems by simp
  then have "mention_records M (fst (reply_loop slot rest ?x')) \<noteq> []"
    using saved by auto
  then show ?case
    using saved by (simp add: reply_loop_fst del: reply_loop.simps)
next
  case (Cons p before)
  let ?x' = "fst (reply_to_mention slot p x)"
  have go: "snd (snd (reply_to_mention slot p x))"
    using Cons.prems(4) by (simp add: step_goes_on)
  have here: "tracked_id p = M \<longrightarrow> \<not> returned (create_tweet p)"
    using Cons.prems(5) by simp
  have "\<not> already_replied ?x' M" "db_ready ?x'"
    using step_keeps_unreplied [OF Cons.prems(2) here] Cons.prems(1)
    by (simp_all add: step_db_ready)
  then have "mention_records M (fst (reply_loop slot (before @ s # rest) ?x')) \<noteq> []"
    using Cons.IH [of ?x'] Cons.prems by simp
  then show ?case
    using go by (simp add: reply_loop_fst del: reply_loop.simps)
qed

lemma set_from_list_fold:
  "set (foldl (\<lambda>s x. set_add slot x s) acc xs) = set acc \<union> set xs"
  by (induction xs arbitrary: acc) auto

lemma set_set_from_list [simp]: "set (set_from_list slot xs) = set xs"
  by (simp add: set_from_list_def set_from_list_fold)

lemma clean_up_store [simp]:
  "db (clean_up slot x) = db x"
  "db_ready (clean_up slot x) = db_ready x"
  "mention_records M (clean_up slot x) = mention_records M x"
  "reply_records M (clean_up slot x) = reply_records M x"
  by (simp_all add: clean_up_def db_ready_def mention_records_def reply_records_def)

lemma clean_up_subset: "set (replied_tweets (clean_up slot x)) \<subseteq> set (replied_tweets x)"
  by (auto simp: clean_up_def last_n_def dest: in_set_dropD)

lemma clean_up_replied:
  assumes "already_replied (clean_up slot x) M"
  shows "already_replied x M"
proof (cases "db_ready x")
  case True
  then show ?thesis
    using assms by (simp add: clean_up_def)
next
  case False
  then have "M \<in> set (replied_tweets (clean_up slot x))"
    using assms by (simp add: already_replied_memory)
  then show ?thesis
    using False clean_up_subset [of slot x] by (auto simp: already_replied_memory)
qed

lemma clean_up_when_store: "db_ready x \<Longrightarrow> clean_up slot x = x"
  by (simp add: clean_up_def)

lemma check_fetching:
  assumes "twitter_client x" and "get_me c = Returned (Some me)"
    and "get_users_mentions c = Returned found" and "found \<noteq> []"
  shows "check_and_reply_to_mentions slot c x =
           (clean_up slot (fst (reply_loop slot found x)), snd (reply_loop slot found x))"
  using assms by (simp add: check_and_reply_to_mentions_def split_beta)

lemma check_cases:
  "check_and_reply_to_mentions slot c x = (x, [])
   \<or> check_and_reply_to_mentions slot c x = (clean_up slot x, [])
   \<or> (\<exists>found. check_and_reply_to_mentions slot c x =
         (clean_up slot (fst (reply_loop slot found x)), snd (reply_loop slot found x)))"
  by (auto simp: check_and_reply_to_mentions_def split_beta split: outcome.splits option.splits)

text \<open>
  C4. In store mode, for a mention \<open>M\<close> that the store holds as replied, a run of
  \<open>check_and_reply_to_mentions\<close>, whatever it fetches (\<open>M\<close> included), sends no reply to
  \<open>M\<close> and leaves the mention documents and the reply documents of \<open>M\<close> as they were;
  \<open>M\<close> is still held as replied afterwards.
\<close>

theorem replied_mention_is_not_replied_again:
  assumes "db_ready x" and "already_replied x M"
  shows "replies_sent_to M (snd (check_and_reply_to_mentions slot c x)) = []
       \<and> mention_records M (fst (check_and_reply_to_mentions slot c x)) = mention_records M x
       \<and> reply_records M (fst (check_and_reply_to_mentions slot c x)) = reply_records M x
       \<and> already_replied (fst (check_and_reply_to_mentions slot c x)) M"
proof -
  have loop: "already_replied (fst (reply_loop slot found x)) M
       \<and> mention_records M (fst (reply_loop slot found x)) = mention_records M x
       \<and> reply_records M (fst (reply_loop slot found x)) = reply_records M x
       \<and> replies_sent_to M (snd (reply_loop slot found x)) = []" for found
    using loop_keeps_replied [OF assms] by simp
  have ready: "db_ready (fst (reply_loop slot found x))" for found
    using assms(1) by (simp add: loop_db_ready)
  consider "check_and_reply_to_mentions slot c x = (x, [])"
    | "check_and_reply_to_mentions slot c x = (clean_up slot x, [])"
    | found where "check_and_reply_to_mentions slot c x =
         (clean_up slot (fst (reply_loop slot found x)), snd (reply_loop slot found x))"
    using check_cases [of slot c x] by blast
  then show ?thesis
  proof cases
    case 1
    then show ?thesis using assms by simp
  next
    case 2
    then show ?thesis using assms by (simp add: clean_up_when_store)
  next
    case 3
    then show ?thesis using loop [of found] ready [of found] by (simp add: clean_up_when_store)
  qed
qed

lemma example_store_simps:
  "db_ready (example_agent (Some store_with_replied_mention))"
  "already_replied (example_agent (Some store_with_replied_mention)) (ascii ''123'')"
  "db_ready (example_agent (Some empty_store))"
  "\<not> already_replied (example_agent (Some empty_store)) (ascii ''123'')"
  by (simp_all add: db_ready_def already_replied_def example_agent_def is_connected_def
      store_with_replied_mention_def mark_mention_replied_def save_mention_def
      empty_store_def XynaeDatabase_init_def blank_server_def is_tweet_replied_def)

lemma tracked_id_123 [simp]:
  "tracked_id (replied_step 123) = ascii ''123''"
  "tracked_id (refused_step 123) = ascii ''123''"
  by code_simp+

theorem replied_mention_is_not_replied_again_witness:
  "db_ready (example_agent (Some store_with_replied_mention))
   \<and> already_replied (example_agent (Some store_with_replied_mention)) (ascii ''123'')
   \<and> replies_sent_to (ascii ''123'')
        (snd (check_and_reply_to_mentions example_slot (fetch [replied_step 123])
               (example_agent (Some store_with_replied_mention)))) = []
   \<and> mention_records (ascii ''123'')
        (fst (check_and_reply_to_mentions example_slot (fetch [replied_step 123])
               (example_agent (Some store_with_replied_mention)))) =
       mention_records (ascii ''123'') (example_agent (Some store_with_replied_mention))"
  using example_store_simps(1,2)
    replied_mention_is_not_replied_again [OF example_store_simps(1,2), of example_slot
      "fetch [replied_step 123]"]
  by simp

lemma db_ready_save_mention [simp]:
  "db_ready (with_db (\<lambda>d. snd (save_mention now tid text user author r d)) x) = db_ready x"
  by (cases "db x") (simp_all add: db_ready_def with_db_def is_connected_def)

lemma step_memory_set_store:
  assumes "db_ready x"
  shows "replied_tweets (fst (reply_to_mention slot s x)) = replied_tweets x"
  using assms
  by (simp add: reply_to_mention_def Let_def split: outcome.splits)

lemma loop_memory_set_store:
  assumes "db_ready x"
  shows "replied_tweets (fst (reply_loop slot steps x)) = replied_tweets x"
  using assms
proof (induction steps arbitrary: x)
  case Nil
  then show ?case by simp
next
  case (Cons s steps)
  have "db_ready (fst (reply_to_mention slot s x))"
    using Cons.prems by (simp add: step_db_ready)
  then show ?case
    using Cons.IH [of "fst (reply_to_mention slot s x)"] Cons.prems
    by (simp add: reply_loop_fst step_memory_set_store del: reply_loop.simps)
qed

text \<open>
  C5. Let \<open>M\<close> be a mention that is not tracked as replied, fetched in a check in which
  the loop reaches it (no earlier publish raises anything else than a
  \<open>TweepyException\<close>) and in which every publish of a reply to \<open>M\<close> is refused with a
  \<open>TweepyException\<close>. Then a reply to \<open>M\<close> was attempted; after the check \<open>M\<close> is still
  not tracked as replied (not marked in the store, not added to the memory set), no
  reply document was saved for it, and in store mode the store holds a mention document
  of \<open>M\<close>, none of them replied. In a next check that fetches \<open>M\<close> and reaches it, a
  reply to \<open>M\<close> is attempted again.
\<close>

theorem failed_reply_is_attempted_again:
  assumes "twitter_client x" and "\<not> already_replied x M"
    and "get_me c1 = Returned (Some me1)"
    and "get_users_mentions c1 = Returned (before1 @ s1 # after1)"
    and "tracked_id s1 = M"
    and "\<forall>p \<in> set before1. \<not> unexpected (create_tweet p)"
    and "\<forall>p \<in> set (before1 @ s1 # after1).
            tracked_id p = M \<longrightarrow> (\<exists>e. create_tweet p = TweepyException e)"
    and "get_me c2 = Returned (Some me2)"
    and "get_users_mentions c2 = Returned (before2 @ s2 # after2)"
    and "tracked_id s2 = M"
    and "\<forall>p \<in> set before2. \<not> unexpected (create_tweet p)"
  shows "replies_sent_to M (snd (check_and_reply_to_mentions slot c1 x)) \<noteq> []
       \<and> \<not> already_replied (fst (check_and_reply_to_mentions slot c1 x)) M
       \<and> (M \<notin> set (replied_tweets x) \<longrightarrow>
            M \<notin> set (replied_tweets (fst (check_and_reply_to_mentions slot c1 x))))
       \<and> reply_records M (fst (check_and_reply_to_mentions slot c1 x)) = reply_records M x
       \<and> (db_ready x \<longrightarrow>
            mention_records M (fst (check_and_reply_to_mentions slot c1 x)) \<noteq> []
            \<and> find replied (mention_records M (fst (check_and_reply_to_mentions slot c1 x)))
                = None)
       \<and> replies_sent_to M
           (snd (check_and_reply_to_mentions slot c2
                   (fst (check_and_reply_to_mentions slot c1 x)))) \<noteq> []"
proof -
  let ?found1 = "before1 @ s1 # after1"
  let ?found2 = "before2 @ s2 # after2"
  let ?loop1 = "reply_loop slot ?found1 x"
  let ?x1 = "clean_up slot (fst ?loop1)"
  have c1: "check_and_reply_to_mentions slot c1 x = (?x1, snd ?loop1)"
    using assms(1,3,4) by (intro check_fetching) auto
  have failed: "\<forall>p \<in> set ?found1. tracked_id p = M \<longrightarrow> \<not> returned (create_tweet p)"
    using assms(7) by (auto simp: returned_def)
  have loop1: "\<not> already_replied (fst ?loop1) M"
    "reply_records M (fst ?loop1) = reply_records M x"
    using loop_keeps_unreplied [OF assms(2) failed, of slot] by simp_all
  have attempt1: "replies_sent_to M (snd ?loop1) \<noteq> []"
    using loop_attempts [OF assms(2,5,6)] by simp
  have unreplied1: "\<not> already_replied ?x1 M"
    using loop1(1) clean_up_replied by blast
  have client1: "twitter_client ?x1"
    using assms(1) by (simp add: reply_loop_client)
  have ready1: "db_ready ?x1 = db_ready x"
    by (simp add: loop_db_ready)
  have memory: "M \<notin> set (replied_tweets ?x1)" if "M \<notin> set (replied_tweets x)"
  proof (cases "db_ready x")
    case True
    then have "db_ready (fst ?loop1)"
      by (simp add: loop_db_ready)
    then show ?thesis
      using that True by (simp add: clean_up_when_store loop_memory_set_store)
  next
    case False
    then show ?thesis
      using unreplied1 ready1 by (simp add: already_replied_memory)
  qed
  have store: "mention_records M ?x1 \<noteq> [] \<and> find replied (mention_records M ?x1) = None"
    if "db_ready x"
  proof -
    have "mention_records M (fst ?loop1) \<noteq> []"
      using loop_persists [OF that assms(2,5,6) failed] by simp
    moreover have "find replied (mention_records M ?x1) = None"
      using unreplied1 ready1 that by (simp add: already_replied_store)
    ultimately show ?thesis by simp
  qed
  have c2: "check_and_reply_to_mentions slot c2 ?x1 =
      (clean_up slot (fst (reply_loop slot ?found2 ?x1)), snd (reply_loop slot ?found2 ?x1))"
    using client1 assms(8,9) by (intro check_fetching) auto
  have attempt2: "replies_sent_to M (snd (reply_loop slot ?found2 ?x1)) \<noteq> []"
    using loop_attempts [OF unreplied1 assms(10,11)] by simp
  show ?thesis
    using c1 c2 attempt1 unreplied1 memory loop1(2) store attempt2 by simp
qed

lemma fetch_simps [simp]:
  "get_me (fetch steps) = Returned (Some 1)"
  "get_users_mentions (fetch steps) = Returned steps"
  by (simp_all add: fetch_def)

theorem failed_reply_is_attempted_again_witness:
  "twitter_client (example_agent (Some empty_store))
   \<and> \<not> already_replied (example_agent (Some empty_store)) (ascii ''123'')
   \<and> tracked_id (refused_step 123) = ascii ''123''
   \<and> create_tweet (refused_step 123) = TweepyException (ascii ''403 Forbidden'')
   \<and> \<not> already_replied
        (fst (check_and_reply_to_mentions example_slot (fetch [refused_step 123])
                (example_agent (Some empty_store)))) (ascii ''123'')
   \<and> mention_records (ascii ''123'')
        (fst (check_and_reply_to_mentions example_slot (fetch [refused_step 123])
                (example_agent (Some empty_store)))) \<noteq> []
   \<and> replies_sent_to (ascii ''123'')
        (snd (check_and_reply_to_mentions example_slot (fetch [refused_step 123])
                (fst (check_and_reply_to_mentions example_slot (fetch [refused_step 123])
                        (example_agent (Some empty_store)))))) \<noteq> []"
proof -
  have client: "twitter_client (example_agent (Some empty_store))"
    by (simp add: example_manager_simps)
  have fresh: "\<not> already_replied (example_agent (Some empty_store)) (ascii ''123'')"
    by (rule example_store_simps)
  have me: "get_me (fetch [refused_step 123]) = Returned (Some 1)"
    by simp
  have found: "get_users_mentions (fetch [refused_step 123]) = Returned ([] @ refused_step 123 # [])"
    by simp
  have tid: "tracked_id (refused_step 123) = ascii ''123''"
    by simp
  have refused: "create_tweet (refused_step 123) = TweepyException (ascii ''403 Forbidden'')"
    by (simp add: refused_step_def)
  have reach: "\<forall>p \<in> set []. \<not> unexpected (create_tweet (p::mention_step))"
    by simp
  have failing: "\<forall>p \<in> set ([] @ refused_step 123 # []).
      tracked_id p = ascii ''123'' \<longrightarrow> (\<exists>e. create_tweet p = TweepyException e)"
    using refused by simp
  show ?thesis
    using client fresh tid refused example_store_simps(3)
      failed_reply_is_attempted_again [OF client fresh me found tid reach failing me found tid
        reach, of example_slot]
    by simp
qed

section \<open>Properties of the memory set\<close>

lemma str_nat_not_Nil [simp]: "str_nat n \<noteq> []" "[] \<noteq> str_nat n"
  by (subst str_nat.simps, simp)+

lemma str_nat_inj: "str_nat n = str_nat m \<Longrightarrow> n = m"
proof (induction n arbitrary: m rule: str_nat.induct)
  case (1 n)
  show ?case
  proof (cases "n < 10")
    case True
    then have n: "str_nat n = [48 + n]"
      by (simp add: str_nat.simps [of n])
    show ?thesis
    proof (cases "m < 10")
      case True
      then show ?thesis
        using n "1.prems" by (simp add: str_nat.simps [of m])
    next
      case False
      then have "str_nat m = str_nat (m div 10) @ [48 + m mod 10]"
        by (simp add: str_nat.simps [of m])
      then show ?thesis
        using n "1.prems" by simp
    qed
  next
    case False
    then have n: "str_nat n = str_nat (n div 10) @ [48 + n mod 10]"
      by (simp add: str_nat.simps [of n])
    show ?thesis
    proof (cases "m < 10")
      case True
      then have "str_nat m = [48 + m]"
        by (simp add: str_nat.simps [of m])
      then show ?thesis
        using n "1.prems" by simp
    next
      case m: False
      then have "str_nat m = str_nat (m div 10) @ [48 + m mod 10]"
        by (simp add: str_nat.simps [of m])
      then have "str_nat (n div 10) = str_nat (m div 10)" "n mod 10 = m mod 10"
        using n "1.prems" by simp_all
      then have "n div 10 = m div 10" "n mod 10 = m mod 10"
        using "1.IH" [OF False] by simp_all
      then show ?thesis
        by (metis div_mult_mod_eq)
    qed
  qed
qed

lemma str_int_inj: "0 \<le> i \<Longrightarrow> 0 \<le> j \<Longrightarrow> str_int i = str_int j \<Longrightarrow> i = j"
  using str_nat_inj [of "nat i" "nat j"] by (simp add: str_int_def)

lemma add_all_simps [simp]:
  "add_all slot [] s = s"
  "add_all slot (x # xs) s = add_all slot xs (set_add slot x s)"
  "add_all slot (xs @ ys) s = add_all slot ys (add_all slot xs s)"
  by (simp_all add: add_all_def)

lemma set_from_list_add_all: "set_from_list slot xs = add_all slot xs []"
  by (simp add: set_from_list_def add_all_def)

lemma length_set_add: "length (set_add slot x s) = (if x \<in> set s then length s else Suc (length s))"
  by (simp add: set_add_def)

lemma sorted_set_add: "sorted (map slot s) \<Longrightarrow> sorted (map slot (set_add slot x s))"
  by (simp add: set_add_def sorted_insort_key)

lemma distinct_set_add: "distinct s \<Longrightarrow> distinct (set_add slot x s)"
  by (simp add: set_add_def distinct_insort)

lemma set_add_all [simp]: "set (add_all slot xs s) = set s \<union> set xs"
  by (induction xs arbitrary: s) auto

lemma length_add_all_le: "length (add_all slot xs s) \<le> length s + length xs"
proof (induction xs arbitrary: s)
  case Nil
  then show ?case by simp
next
  case (Cons x xs)
  have "length (add_all slot xs (set_add slot x s)) \<le> length (set_add slot x s) + length xs"
    by (rule Cons.IH)
  then show ?case
    by (simp add: length_set_add split: if_splits)
qed

lemma length_add_all_distinct:
  "distinct xs \<Longrightarrow> set xs \<inter> set s = {} \<Longrightarrow> length (add_all slot xs s) = length s + length xs"
proof (induction xs arbitrary: s)
  case Nil
  then show ?case by simp
next
  case (Cons x xs)
  have "length (add_all slot xs (set_add slot x s)) = length (set_add slot x s) + length xs"
    using Cons.prems by (intro Cons.IH) auto
  then show ?case
    using Cons.prems by (simp add: length_set_add)
qed

lemma sorted_add_all: "sorted (map slot s) \<Longrightarrow> sorted (map slot (add_all slot xs s))"
  by (induction xs arbitrary: s) (simp_all add: sorted_set_add)

lemma distinct_add_all: "distinct s \<Longrightarrow> distinct (add_all slot xs s)"
  by (induction xs arbitrary: s) (simp_all add: distinct_set_add)

lemma sorted_hd_least:
  assumes "sorted (map f s)" and "m \<in> set s" and "\<forall>y \<in> set s. y \<noteq> m \<longrightarrow> f m < f y"
  shows "hd s = m"
proof (cases s)
  case Nil
  then show ?thesis using assms(2) by simp
next
  case (Cons a rest)
  show ?thesis
  proof (rule ccontr)
    assume "hd s \<noteq> m"
    then have "a \<noteq> m" "m \<in> set rest"
      using Cons assms(2) by auto
    then have "f a \<le> f m" "f m < f a"
      using assms(1,3) Cons by auto
    then show False by simp
  qed
qed

text \<open>The memory set after a loop in which every reply is published.\<close>

lemma step_memory_returned:
  assumes "\<not> db_ready x" and "returned (create_tweet s)"
  shows "replied_tweets (fst (reply_to_mention slot s x)) =
           set_add slot (tracked_id s) (replied_tweets x)
       \<and> snd (snd (reply_to_mention slot s x))"
  using assms
  by (auto simp: step_memory [OF assms(1)] returned_def set_add_def split: outcome.splits)

lemma loop_memory_returned:
  assumes "\<not> db_ready x" and "\<forall>s \<in> set steps. returned (create_tweet s)"
  shows "replied_tweets (fst (reply_loop slot steps x)) =
           add_all slot (map tracked_id steps) (replied_tweets x)"
  using assms
proof (induction steps arbitrary: x)
  case Nil
  then show ?case by simp
next
  case (Cons s steps)
  let ?x' = "fst (reply_to_mention slot s x)"
  have step: "replied_tweets ?x' = set_add slot (tracked_id s) (replied_tweets x)"
    "snd (snd (reply_to_mention slot s x))"
    using step_memory_returned [of x s slot] Cons.prems by simp_all
  have "\<not> db_ready ?x'"
    using Cons.prems(1) by (simp add: step_db_ready)
  then have "replied_tweets (fst (reply_loop slot steps ?x')) =
      add_all slot (map tracked_id steps) (replied_tweets ?x')"
    using Cons.IH [of ?x'] Cons.prems(2) by simp
  then show ?case
    using step by (simp add: reply_loop_fst del: reply_loop.simps)
qed

lemma replied_step_simps [simp]:
  "tracked_id (replied_step i) = str_int i"
  "returned (create_tweet (replied_step i))"
  by (simp_all add: tracked_id_def replied_step_def returned_def)

lemma check_memory_small:
  assumes "twitter_client x" and "\<not> db_ready x" and "ids \<noteq> []"
    and "length (replied_tweets x) + length ids \<le> 100"
  shows "replied_tweets (fst (check_and_reply_to_mentions slot (fetch (map replied_step ids)) x))
           = add_all slot (map str_int ids) (replied_tweets x)
       \<and> twitter_client (fst (check_and_reply_to_mentions slot (fetch (map replied_step ids)) x))
       \<and> \<not> db_ready (fst (check_and_reply_to_mentions slot (fetch (map replied_step ids)) x))"
proof -
  let ?loop = "reply_loop slot (map replied_step ids) x"
  have c: "check_and_reply_to_mentions slot (fetch (map replied_step ids)) x =
      (clean_up slot (fst ?loop), snd ?loop)"
    using assms(1,3) by (intro check_fetching) auto
  have s: "replied_tweets (fst ?loop) = add_all slot (map str_int ids) (replied_tweets x)"
    using loop_memory_returned [OF assms(2), of "map replied_step ids" slot]
    by (simp add: comp_def)
  have "length (replied_tweets (fst ?loop)) \<le> 100"
    using length_add_all_le [of slot "map str_int ids" "replied_tweets x"] assms(4) s by simp
  then have "clean_up slot (fst ?loop) = fst ?loop"
    by (simp add: clean_up_def)
  then show ?thesis
    using c s assms(1,2) by (simp add: reply_loop_client loop_db_ready)
qed

lemma check_memory_full:
  assumes "twitter_client x" and "\<not> db_ready x" and "ids \<noteq> []"
    and "length (add_all slot (map str_int ids) (replied_tweets x)) > 100"
  shows "replied_tweets (fst (check_and_reply_to_mentions slot (fetch (map replied_step ids)) x))
           = set_from_list slot (last_n 100 (add_all slot (map str_int ids) (replied_tweets x)))"
proof -
  let ?loop = "reply_loop slot (map replied_step ids) x"
  have c: "check_and_reply_to_mentions slot (fetch (map replied_step ids)) x =
      (clean_up slot (fst ?loop), snd ?loop)"
    using assms(1,3) by (intro check_fetching) auto
  have s: "replied_tweets (fst ?loop) = add_all slot (map str_int ids) (replied_tweets x)"
    using loop_memory_returned [OF assms(2), of "map replied_step ids" slot]
    by (simp add: comp_def)
  have "\<not> db_ready (fst ?loop)"
    using assms(2) by (simp add: loop_db_ready)
  then show ?thesis
    using c s assms(4) by (simp add: clean_up_def)
qed

lemma after_checks_simps [simp]:
  "after_checks slot [] x = x"
  "after_checks slot (c # cs) x = after_checks slot cs (fst (check_and_reply_to_mentions slot c x))"
  "after_checks slot (cs @ cs') x = after_checks slot cs' (after_checks slot cs x)"
  by (simp_all add: after_checks_def)

lemma checks_memory_small:
  assumes "twitter_client x" and "\<not> db_ready x" and "\<forall>ids \<in> set batches. ids \<noteq> []"
    and "length (replied_tweets x) + length (concat batches) \<le> 100"
  shows "replied_tweets
           (after_checks slot (map (\<lambda>ids. fetch (map replied_step ids)) batches) x)
           = add_all slot (map str_int (concat batches)) (replied_tweets x)
       \<and> twitter_client
           (after_checks slot (map (\<lambda>ids. fetch (map replied_step ids)) batches) x)
       \<and> \<not> db_ready
           (after_checks slot (map (\<lambda>ids. fetch (map replied_step ids)) batches) x)"
  using assms
proof (induction batches arbitrary: x)
  case Nil
  then show ?case by simp
next
  case (Cons ids batches)
  let ?x' = "fst (check_and_reply_to_mentions slot (fetch (map replied_step ids)) x)"
  have first: "replied_tweets ?x' = add_all slot (map str_int ids) (replied_tweets x)"
    "twitter_client ?x'" "\<not> db_ready ?x'"
    using check_memory_small [of x ids slot] Cons.prems by simp_all
  have "length (replied_tweets ?x') \<le> length (replied_tweets x) + length ids"
    using first(1) length_add_all_le [of slot "map str_int ids" "replied_tweets x"] by simp
  then have "length (replied_tweets ?x') + length (concat batches) \<le> 100"
    using Cons.prems(4) by simp
  then show ?case
    using Cons.IH [of ?x'] first Cons.prems(3) by simp
qed

lemma example_slot_least:
  "\<forall>i \<in> set [1..101]. i \<noteq> 10 \<longrightarrow> example_slot (str_int 10) < example_slot (str_int i)"
  by (simp add: upto.simps example_slot_def str_int_def str_nat.simps)

lemma ten_batches:
  "concat [[1..10], [11..20], [21..30], [31..40], [41..50], [51..60], [61..70], [71..80],
        [81..90], [91..100::int]] @ [101] = [1..101]"
  "\<forall>ids \<in> set [[1..10], [11..20], [21..30], [31..40], [41..50], [51..60], [61..70], [71..80],
        [81..90], [91..100::int]]. ids \<noteq> []"
  "length (concat [[1..10], [11..20], [21..30], [31..40], [41..50], [51..60], [61..70],
        [71..80], [81..90], [91..100::int]]) = 100"
  "[101..101::int] = [101]"
  by (simp_all add: upto.simps)

lemma small_ids: "ascii ''1'' = str_int 1" "ascii ''10'' = str_int 10"
  by (simp_all add: ascii_def str_int_def str_nat.simps)

lemma distinct_ids: "distinct (map str_int [1..101])"
proof -
  have "inj_on str_int (set [1..101])"
  proof (rule inj_onI)
    fix i j :: int
    assume "i \<in> set [1..101]" "j \<in> set [1..101]" "str_int i = str_int j"
    then show "i = j"
      using str_int_inj [of i j] by simp
  qed
  then show ?thesis
    by (simp add: distinct_map)
qed

text \<open>
  C2. In memory-only mode, after the mentions 1 to 101 were fetched and replied to in
  eleven checks, the set should hold the 100 ids added last, 2 to 101. With the
  positions that \<open>example_slot\<close> gives the strings it does hold 100 ids, but the oldest
  id "1" is among them and the id "10" is not: the clean-up keeps the last 100
  elements in the order of the table of the set, which is not the order of insertion.
\<close>

theorem memory_set_keeps_oldest_evicts_recent:
  "ascii ''1'' \<in> set (replied_tweets (after_checks example_slot eleven_checks (example_agent None)))
   \<and> ascii ''10'' \<notin> set (replied_tweets (after_checks example_slot eleven_checks (example_agent None)))
   \<and> length (replied_tweets (after_checks example_slot eleven_checks (example_agent None))) = 100"
proof -
  let ?ten = "[[1..10], [11..20], [21..30], [31..40], [41..50], [51..60], [61..70], [71..80],
        [81..90], [91..100::int]]"
  let ?mk = "\<lambda>ids. fetch (map replied_step ids)"
  let ?x0 = "example_agent None"
  let ?x10 = "after_checks example_slot (map ?mk ?ten) ?x0"
  let ?s = "add_all example_slot (map str_int [1..101]) []"
  have x0: "twitter_client ?x0" "\<not> db_ready ?x0" "replied_tweets ?x0 = []"
    by (simp_all add: example_agent_def db_ready_def)
  have split: "eleven_checks = map ?mk ?ten @ [?mk [101]]"
    by (simp add: eleven_checks_def ten_batches(4))
  have x10: "replied_tweets ?x10 = add_all example_slot (map str_int (concat ?ten)) []"
    "twitter_client ?x10" "\<not> db_ready ?x10"
    using checks_memory_small [of ?x0 ?ten example_slot] x0 ten_batches(2,3) by simp_all
  have s: "add_all example_slot (map str_int [101]) (replied_tweets ?x10) = ?s"
    unfolding x10(1) add_all_simps(3) [symmetric] map_append [symmetric] ten_batches(1) ..
  have sorted: "sorted (map example_slot ?s)" and distinct: "distinct ?s"
    by (simp_all add: sorted_add_all distinct_add_all)
  have elements: "set ?s = str_int ` set [1..101]"
    by simp
  have len: "length ?s = 101"
    using length_add_all_distinct [of "map str_int [1..101]" "[]" example_slot] distinct_ids
    by simp
  have final: "replied_tweets (after_checks example_slot eleven_checks ?x0) =
      set_from_list example_slot (last_n 100 ?s)"
    using check_memory_full [of ?x10 "[101]" example_slot] x10(2,3) s len
    by (simp add: split)
  have "\<forall>y \<in> set ?s. y \<noteq> str_int 10 \<longrightarrow> example_slot (str_int 10) < example_slot y"
    using example_slot_least elements by auto
  moreover have "str_int 10 \<in> set ?s"
    by simp
  ultimately have hd: "hd ?s = str_int 10"
    using sorted by (intro sorted_hd_least) auto
  have nonempty: "?s \<noteq> []"
    using len by auto
  have last: "last_n 100 ?s = tl ?s"
    using len by (simp add: last_n_def drop_Suc)
  have whole: "?s = str_int 10 # tl ?s"
    using hd nonempty by (metis list.collapse)
  have tail: "str_int 10 \<notin> set (tl ?s)" "distinct (tl ?s)" "length (tl ?s) = 100"
    using distinct whole len by (metis distinct.simps(2), simp add: distinct_tl, simp)
  have "str_int 1 \<in> set ?s" "str_int 1 \<noteq> str_int 10"
    using str_int_inj [of 1 10] by auto
  then have one: "str_int 1 \<in> set (tl ?s)"
    using whole by (metis set_ConsD)
  have "length (set_from_list example_slot (tl ?s)) = 100"
    using length_add_all_distinct [of "tl ?s" "[]" example_slot] tail
    by (simp add: set_from_list_add_all)
  then show ?thesis
    using final last tail(1) one by (simp add: small_ids)
qed

end
